theory Spec2Isabelle
  imports Complex_Main "HOL-Library.AList"
begin

section \<open>JavaScript values and the platform built-ins\<close>

text \<open>
  The server is TypeScript whose tool parameters, response bodies and calendar data are
  untyped JavaScript values (\<open>unknown\<close>, \<open>any\<close>). They are modelled by one datatype.
  An object is an association list in insertion order, with one entry for each key; an
  absent property reads as \<open>JUndefined\<close>. Only zero-tests and array lengths are ever
  computed on numbers, so a number is a rational. A string is a list of characters, one
  for each unit that \<open>length\<close> counts.
\<close>

datatype jsval =
    JUndefined
  | JNull
  | JBool bool
  | JNum rat
  | JStr string
  | JArr "jsval list"
  | JObj "(string \<times> jsval) list"

text \<open>Whatever a \<open>throw\<close> carries; \<open>message\<close> is \<open>(error as Error).message\<close>.\<close>

datatype js_error =
    TypeError string
  | SyntaxError string
  | URIError string
  | RequestError string

fun message :: "js_error \<Rightarrow> string" where
  "message (TypeError m) = m"
| "message (SyntaxError m) = m"
| "message (URIError m) = m"
| "message (RequestError m) = m"

text \<open>The double quote, the single quote and the line feed.\<close>

abbreviation dquote :: string where
  "dquote \<equiv> [CHR 0x22]"

abbreviation squote :: string where
  "squote \<equiv> [CHR 0x27]"

abbreviation newline :: string where
  "newline \<equiv> [CHR 0x0A]"

text \<open>The two fields of a WHATWG \<open>URL\<close> object that the pagination loop reads.\<close>

record url =
  pathname :: string
  searchParams :: "(string \<times> string) list"

text \<open>
  Functions of the JavaScript platform that the code calls and that are no part of the
  repository. They are parameters of the model: every theorem below holds for whatever
  they compute. A built-in that can throw returns a sum.
  \<^item> \<open>ToString\<close> is the coercion of template literals (\<open>`${v}`\<close>) and of string
    arguments;
  \<^item> \<open>JSON_stringify_pretty v\<close> is \<open>JSON.stringify(v, null, 2)\<close>;
  \<^item> \<open>new_URL\<close> is the \<open>URL\<close> constructor on the coerced string.
\<close>

record builtins =
  JSON_parse :: "string \<Rightarrow> js_error + jsval"
  JSON_stringify :: "jsval \<Rightarrow> string"
  JSON_stringify_pretty :: "jsval \<Rightarrow> string"
  ToString :: "jsval \<Rightarrow> string"
  encodeURIComponent :: "string \<Rightarrow> js_error + string"
  new_URL :: "string \<Rightarrow> js_error + url"
  toLowerCase :: "string \<Rightarrow> string"
  toUpperCase :: "string \<Rightarrow> string"

subsection \<open>Truthiness and property access\<close>

fun truthy :: "jsval \<Rightarrow> bool" where
  "truthy JUndefined = False"
| "truthy JNull = False"
| "truthy (JBool b) = b"
| "truthy (JNum n) = (n \<noteq> 0)"
| "truthy (JStr s) = (s \<noteq> [])"
| "truthy (JArr xs) = True"
| "truthy (JObj kvs) = True"

text \<open>\<open>a || b\<close>.\<close>

definition js_or :: "jsval \<Rightarrow> jsval \<Rightarrow> jsval" where
  "js_or a b = (if truthy a then a else b)"

fun nullish :: "jsval \<Rightarrow> bool" where
  "nullish JUndefined = True"
| "nullish JNull = True"
| "nullish v = False"

text \<open>
  \<open>v.k\<close> and \<open>v[k]\<close> for the property names the code reads (\<open>value\<close>,
  \<open>@odata.nextLink\<close>, \<open>@odata.count\<close>, \<open>subject\<close>, \<open>id\<close>, ...): none of them is
  a property of a built-in prototype, so a string, number, boolean or array has no such
  property, and reading one from \<open>undefined\<close> or \<open>null\<close> throws.
\<close>

fun get_prop :: "jsval \<Rightarrow> string \<Rightarrow> js_error + jsval" where
  "get_prop JUndefined k =
     Inl (TypeError (''Cannot read properties of undefined (reading '' @ squote @ k @ squote @ '')''))"
| "get_prop JNull k =
     Inl (TypeError (''Cannot read properties of null (reading '' @ squote @ k @ squote @ '')''))"
| "get_prop (JObj kvs) k = Inr (case map_of kvs k of None \<Rightarrow> JUndefined | Some v \<Rightarrow> v)"
| "get_prop v k = Inr JUndefined"

text \<open>
  \<open>v.k = x\<close> in strict mode (the sources are ES modules): it throws on a primitive.
  An array takes the property but \<open>JSON.stringify\<close> never prints it and the code never
  reads it back, so the array is returned as it is.
\<close>

fun set_prop :: "jsval \<Rightarrow> string \<Rightarrow> jsval \<Rightarrow> js_error + jsval" where
  "set_prop (JObj kvs) k x = Inr (JObj (AList.update k x kvs))"
| "set_prop (JArr xs) k x = Inr (JArr xs)"
| "set_prop v k x = Inl (TypeError (''Cannot create property '' @ k))"

text \<open>\<open>delete v[k]\<close>, reached only after \<open>set_prop\<close> succeeded on \<open>v\<close>.\<close>

fun delete_prop :: "jsval \<Rightarrow> string \<Rightarrow> jsval" where
  "delete_prop (JObj kvs) k = JObj (AList.delete k kvs)"
| "delete_prop v k = v"

text \<open>\<open>v.length\<close>.\<close>

fun js_length :: "jsval \<Rightarrow> js_error + jsval" where
  "js_length (JArr xs) = Inr (JNum (of_nat (length xs)))"
| "js_length (JStr s) = Inr (JNum (of_nat (length s)))"
| "js_length v = get_prop v ''length''"

text \<open>\<open>Array.isArray(v)\<close>.\<close>

fun isArray :: "jsval \<Rightarrow> bool" where
  "isArray (JArr xs) = True"
| "isArray v = False"

subsection \<open>Strings\<close>

text \<open>\<open>s.startsWith(p)\<close>, \<open>s.endsWith(p)\<close>, \<open>s.includes(p)\<close>.\<close>

fun str_startsWith :: "string \<Rightarrow> string \<Rightarrow> bool" where
  "str_startsWith s [] = True"
| "str_startsWith [] (p # ps) = False"
| "str_startsWith (c # cs) (p # ps) = (c = p \<and> str_startsWith cs ps)"

definition str_endsWith :: "string \<Rightarrow> string \<Rightarrow> bool" where
  "str_endsWith s p = str_startsWith (rev s) (rev p)"

fun str_includes :: "string \<Rightarrow> string \<Rightarrow> bool" where
  "str_includes [] p = (p = [])"
| "str_includes (c # cs) p = (str_startsWith (c # cs) p \<or> str_includes cs p)"

text \<open>
  \<open>s.replace(pat, rep)\<close> with a string pattern: the first occurrence only. The
  replacements of the code are the empty string and outputs of \<open>encodeURIComponent\<close>,
  which never contain the \<open>$\<close> that would start a replacement pattern.
\<close>

fun str_replace :: "string \<Rightarrow> string \<Rightarrow> string \<Rightarrow> string" where
  "str_replace [] pat rep = (if pat = [] then rep else [])"
| "str_replace (c # cs) pat rep =
     (if str_startsWith (c # cs) pat then rep @ drop (length pat) (c # cs)
      else c # str_replace cs pat rep)"

text \<open>\<open>xs.join(sep)\<close> on strings.\<close>

fun str_join :: "string \<Rightarrow> string list \<Rightarrow> string" where
  "str_join sep [] = []"
| "str_join sep [x] = x"
| "str_join sep (x # y # ys) = x @ sep @ str_join sep (y # ys)"

subsection \<open>Records of strings\<close>

text \<open>
  A \<open>Record<string, string>\<close> (the query parameters, the headers) is an object that
  starts empty and is filled by \<open>r[key] = value\<close> with string values. It is modelled
  by the list of its entries in the order in which JavaScript enumerates them: the keys
  that are array indices first, in ascending numeric order, then the other keys in the
  order of their creation. An array index is the canonical decimal numeral of a number
  below \<open>2^32 - 1\<close>.
\<close>

definition index_value :: "string \<Rightarrow> int" where
  "index_value s = foldl (\<lambda>n c. 10 * n + (of_char c - 48)) 0 s"

definition is_index :: "string \<Rightarrow> bool" where
  "is_index s =
     (s \<noteq> [] \<and> list_all (\<lambda>c. c \<in> set ''0123456789'') s
      \<and> (s = ''0'' \<or> \<not> str_startsWith s ''0'')
      \<and> index_value s < 4294967295)"

text \<open>A new array-index key goes before the first entry that is no smaller index.\<close>

fun insert_index :: "string \<Rightarrow> 'v \<Rightarrow> (string \<times> 'v) list \<Rightarrow> (string \<times> 'v) list" where
  "insert_index k v [] = [(k, v)]"
| "insert_index k v (p # ps) =
     (if is_index (fst p) \<and> index_value (fst p) < index_value k then p # insert_index k v ps
      else (k, v) # p # ps)"

text \<open>
  \<open>r[k] = v\<close> for a string \<open>v\<close>. The key \<open>__proto__\<close> reaches the setter of
  \<open>Object.prototype\<close>, which ignores a string, so nothing is stored; a key that is
  present keeps its place; a new key is placed as described above.
\<close>

definition record_set :: "string \<Rightarrow> 'v \<Rightarrow> (string \<times> 'v) list \<Rightarrow> (string \<times> 'v) list" where
  "record_set k v r =
     (if k = ''__proto__'' then r
      else if k \<in> set (map fst r) then AList.update k v r
      else if is_index k then insert_index k v r
      else r @ [(k, v)])"

text \<open>The record filled from a sequence of entries, as lines 247 to 250 fill
  \<open>nextQueryParams\<close>: a later entry overwrites an earlier one with the same key.\<close>

definition fromEntries :: "(string \<times> string) list \<Rightarrow> (string \<times> string) list" where
  "fromEntries es = foldl (\<lambda>r (k, v). record_set k v r) [] es"

section \<open>Endpoint catalog\<close>

datatype param_type = Path | Query | Body | Header

text \<open>A parameter definition of the generated client; \<open>pd_schema\<close> is the success flag
  of the zod schema's \<open>safeParse\<close>.\<close>

record param_def =
  pd_name :: string
  pd_type :: param_type
  pd_schema :: "(jsval \<Rightarrow> bool) option"

record endpoint =
  tool_alias :: string
  tool_path :: string
  tool_method :: string
  tool_description :: "string option"
  tool_parameters :: "param_def list option"
  tool_errors :: "string option list option"

text \<open>\<open>tool_errors\<close> keeps the \<open>description\<close> of each declared error, the only field read.\<close>

record EndpointConfig =
  cfg_toolName :: string
  cfg_scopes :: "string list option"
  cfg_workScopes :: "string list option"
  cfg_returnDownloadUrl :: "bool option"
  cfg_supportsTimezone :: "bool option"
  cfg_acceptHeader :: "string option"
  cfg_llmTip :: "string option"

section \<open>Parameter binder (\<open>executeGraphTool\<close>, first half)\<close>

definition controlParams :: "string list" where
  "controlParams = [''fetchAllPages'', ''includeHeaders'', ''excludeResponse'', ''timezone'']"

definition odataParams :: "string list" where
  "odataParams =
     [''filter'', ''select'', ''expand'', ''orderby'', ''skip'', ''top'', ''count'', ''search'',
      ''format'']"

definition normalizedParamName :: "string \<Rightarrow> string" where
  "normalizedParamName paramName =
     (if str_startsWith paramName ''$'' then drop 1 paramName else paramName)"

definition isOdataParam :: "builtins \<Rightarrow> string \<Rightarrow> bool" where
  "isOdataParam B paramName = (toLowerCase B (normalizedParamName paramName) \<in> set odataParams)"

definition fixedParamName :: "builtins \<Rightarrow> string \<Rightarrow> string" where
  "fixedParamName B paramName =
     (if isOdataParam B paramName then ''$'' @ toLowerCase B (normalizedParamName paramName)
      else paramName)"

definition find_paramDef :: "builtins \<Rightarrow> param_def list \<Rightarrow> string \<Rightarrow> param_def option" where
  "find_paramDef B parameterDefinitions paramName =
     find (\<lambda>p. pd_name p = paramName \<or>
                (isOdataParam B paramName \<and> pd_name p = normalizedParamName paramName))
       parameterDefinitions"

text \<open>The four variables the binding loop assigns.\<close>

record binder_state =
  bs_path :: string
  bs_queryParams :: "(string \<times> string) list"
  bs_headers :: "(string \<times> string) list"
  bs_body :: jsval

text \<open>The Body case: validate, retry wrapped under the parameter's own name, else pass
  the raw value on.\<close>

definition bind_body :: "param_def \<Rightarrow> string \<Rightarrow> jsval \<Rightarrow> jsval" where
  "bind_body paramDef paramName paramValue =
     (case pd_schema paramDef of
        Some schema \<Rightarrow>
          if \<not> schema paramValue then
            (let wrapped = JObj [(paramName, paramValue)]
             in if schema wrapped then wrapped else paramValue)
          else paramValue
      | None \<Rightarrow> paramValue)"

text \<open>One iteration of \<open>for (const [paramName, paramValue] of Object.entries(params))\<close>.\<close>

definition bind_param ::
  "builtins \<Rightarrow> param_def list \<Rightarrow> binder_state \<Rightarrow> string \<times> jsval \<Rightarrow> js_error + binder_state"
where
  "bind_param B parameterDefinitions s p =
     (case p of (paramName, paramValue) \<Rightarrow>
        if paramName \<in> set controlParams then Inr s
        else
          (case find_paramDef B parameterDefinitions paramName of
             Some paramDef \<Rightarrow>
               (case pd_type paramDef of
                  Path \<Rightarrow>
                    (case encodeURIComponent B (ToString B paramValue) of
                       Inl e \<Rightarrow> Inl e
                     | Inr enc \<Rightarrow>
                         Inr (s\<lparr>bs_path :=
                                str_replace
                                  (str_replace (bs_path s) (''{'' @ paramName @ ''}'') enc)
                                  ('':'' @ paramName) enc\<rparr>))
                | Query \<Rightarrow>
                    Inr (s\<lparr>bs_queryParams :=
                           record_set (fixedParamName B paramName) (ToString B paramValue)
                             (bs_queryParams s)\<rparr>)
                | Body \<Rightarrow> Inr (s\<lparr>bs_body := bind_body paramDef paramName paramValue\<rparr>)
                | Header \<Rightarrow>
                    Inr (s\<lparr>bs_headers :=
                           record_set (fixedParamName B paramName) (ToString B paramValue)
                             (bs_headers s)\<rparr>))
           | None \<Rightarrow>
               if paramName = ''body'' then Inr (s\<lparr>bs_body := paramValue\<rparr>) else Inr s))"

fun bind_params ::
  "builtins \<Rightarrow> param_def list \<Rightarrow> binder_state \<Rightarrow> (string \<times> jsval) list \<Rightarrow> js_error + binder_state"
where
  "bind_params B parameterDefinitions s [] = Inr s"
| "bind_params B parameterDefinitions s (p # ps) =
     (case bind_param B parameterDefinitions s p of
        Inl e \<Rightarrow> Inl e
      | Inr s' \<Rightarrow> bind_params B parameterDefinitions s' ps)"

section \<open>Request construction (\<open>executeGraphTool\<close>, lines 170 to 227)\<close>

record request_options =
  opt_method :: string
  opt_headers :: "(string \<times> string) list"
  opt_body :: "string option"
  opt_rawResponse :: "bool option"
  opt_includeHeaders :: "bool option"
  opt_excludeResponse :: "bool option"
  opt_queryParams :: "(string \<times> string) list option"

text \<open>\<open>params.k\<close> on the invocation's parameter map, which is the list of the entries
  of a JavaScript object: its keys are distinct.\<close>

definition param_get :: "(string \<times> jsval) list \<Rightarrow> string \<Rightarrow> jsval" where
  "param_get params k = (case map_of params k of None \<Rightarrow> JUndefined | Some v \<Rightarrow> v)"

text \<open>\<open>config?.flag\<close> as a condition.\<close>

definition config_flag :: "(EndpointConfig \<Rightarrow> bool option) \<Rightarrow> EndpointConfig option \<Rightarrow> bool" where
  "config_flag f config = (case config of None \<Rightarrow> False | Some c \<Rightarrow> f c = Some True)"

text \<open>The \<open>key=value\<close> fragments of the query string; \<open>encodeURIComponent\<close> may throw.\<close>

fun encode_query :: "builtins \<Rightarrow> (string \<times> string) list \<Rightarrow> js_error + string list" where
  "encode_query B [] = Inr []"
| "encode_query B (kv # es) =
     (case encodeURIComponent B (fst kv) of
        Inl e \<Rightarrow> Inl e
      | Inr k \<Rightarrow>
          (case encodeURIComponent B (snd kv) of
             Inl e \<Rightarrow> Inl e
           | Inr v \<Rightarrow>
               (case encode_query B es of
                  Inl e \<Rightarrow> Inl e
                | Inr rest \<Rightarrow> Inr ((k @ ''='' @ v) # rest))))"

definition timezone_headers ::
  "builtins \<Rightarrow> EndpointConfig option \<Rightarrow> (string \<times> jsval) list \<Rightarrow> (string \<times> string) list \<Rightarrow>
   (string \<times> string) list"
where
  "timezone_headers B config params headers =
     (if config_flag cfg_supportsTimezone config \<and> truthy (param_get params ''timezone'')
      then record_set ''Prefer''
             (''outlook.timezone='' @ dquote @ ToString B (param_get params ''timezone'') @ dquote)
             headers
      else headers)"

definition accept_headers ::
  "EndpointConfig option \<Rightarrow> (string \<times> string) list \<Rightarrow> (string \<times> string) list"
where
  "accept_headers config headers =
     (case config of
        None \<Rightarrow> headers
      | Some c \<Rightarrow>
          (case cfg_acceptHeader c of
             None \<Rightarrow> headers
           | Some a \<Rightarrow> if a \<noteq> [] then record_set ''Accept'' a headers else headers))"

definition query_path :: "builtins \<Rightarrow> string \<Rightarrow> (string \<times> string) list \<Rightarrow> js_error + string" where
  "query_path B path queryParams =
     (if queryParams \<noteq> [] then
        (case encode_query B queryParams of
           Inl e \<Rightarrow> Inl e
         | Inr qs \<Rightarrow>
             Inr (path @ (if str_includes path ''?'' then ''&'' else ''?'') @ str_join ''&'' qs))
      else Inr path)"

definition isProbablyMediaContent :: "endpoint \<Rightarrow> string \<Rightarrow> bool" where
  "isProbablyMediaContent tool path =
     ((case tool_errors tool of
         None \<Rightarrow> False
       | Some es \<Rightarrow> list_ex (\<lambda>d. d = Some ''Retrieved media content'') es)
      \<or> str_endsWith path ''/content'')"

text \<open>
  Everything up to the first \<open>graphClient.graphRequest(path, options)\<close>: the path and
  the options of the outgoing request, or the error thrown on the way.
\<close>

definition build_request ::
  "builtins \<Rightarrow> endpoint \<Rightarrow> EndpointConfig option \<Rightarrow> (string \<times> jsval) list \<Rightarrow>
   js_error + string \<times> request_options"
where
  "build_request B tool config params =
     (case bind_params B (case tool_parameters tool of None \<Rightarrow> [] | Some ds \<Rightarrow> ds)
             \<lparr>bs_path = tool_path tool, bs_queryParams = [], bs_headers = [], bs_body = JNull\<rparr>
             params of
        Inl e \<Rightarrow> Inl e
      | Inr s \<Rightarrow>
          (case query_path B (bs_path s) (bs_queryParams s) of
             Inl e \<Rightarrow> Inl e
           | Inr path \<Rightarrow>
               (let headers = accept_headers config (timezone_headers B config params (bs_headers s));
                    method = toUpperCase B (tool_method tool);
                    body = (if method \<noteq> ''GET'' \<and> truthy (bs_body s)
                            then Some (case bs_body s of JStr t \<Rightarrow> t | v \<Rightarrow> JSON_stringify B v)
                            else None);
                    download = (config_flag cfg_returnDownloadUrl config \<and> str_endsWith path ''/content'')
                in Inr (if download then take (length path - length ''/content'') path else path,
                        \<lparr>opt_method = method,
                         opt_headers = headers,
                         opt_body = body,
                         opt_rawResponse =
                           (if \<not> download \<and> isProbablyMediaContent tool path then Some True else None),
                         opt_includeHeaders =
                           (if param_get params ''includeHeaders'' = JBool True then Some True else None),
                         opt_excludeResponse =
                           (if param_get params ''excludeResponse'' = JBool True then Some True else None),
                         opt_queryParams = None\<rparr>))))"

section \<open>The network collaborator and the result envelope\<close>

record mcp_content =
  mc_type :: string
  mc_text :: string

record McpResponse =
  resp_content :: "mcp_content list"
  resp_meta :: "jsval option"
  resp_isError :: "bool option"

text \<open>
  \<open>graphClient.graphRequest(path, options)\<close>. The client is a collaborator passed in
  as an argument: it is any function of its own state and the request, which returns a
  response of its declared type or throws.
\<close>

type_synonym 's graphRequest =
  "'s \<Rightarrow> string \<Rightarrow> request_options \<Rightarrow> (js_error + McpResponse) \<times> 's"

text \<open>One call of the client: path, options and what came back.\<close>

type_synonym exchange = "string \<times> request_options \<times> (js_error + McpResponse)"

datatype ContentItem =
    TextContent string
  | ImageContent string string
  | AudioContent string string
  | ResourceContent jsval

record CallToolResult =
  ctr_content :: "ContentItem list"
  ctr_meta :: "jsval option"
  ctr_isError :: "bool option"

text \<open>
  The \<open>logger.warn\<close> and \<open>logger.error\<close> calls of \<open>executeGraphTool\<close>
  (\<open>logger.info\<close> calls are left out):
  \<^item> \<open>WarnPageLimit\<close>: "Reached maximum page limit (100) for pagination";
  \<^item> \<open>ErrorDuringPagination e\<close>: "Error during pagination: e";
  \<^item> \<open>ErrorInTool alias e\<close>: "Error in tool alias: message of e".
\<close>

datatype log_entry =
    WarnPageLimit
  | ErrorDuringPagination js_error
  | ErrorInTool string js_error

text \<open>\<open>response?.content?.[0]?.text\<close> as a condition.\<close>

definition has_text :: "McpResponse \<Rightarrow> bool" where
  "has_text response =
     (case resp_content response of [] \<Rightarrow> False | c # cs \<Rightarrow> mc_text c \<noteq> [])"

definition first_text :: "McpResponse \<Rightarrow> string" where
  "first_text response = (case resp_content response of [] \<Rightarrow> [] | c # cs \<Rightarrow> mc_text c)"

text \<open>\<open>response.content[0].text = t\<close>.\<close>

definition set_first_text :: "McpResponse \<Rightarrow> string \<Rightarrow> McpResponse" where
  "set_first_text response t =
     (case resp_content response of
        [] \<Rightarrow> response
      | c # cs \<Rightarrow> response\<lparr>resp_content := (c\<lparr>mc_text := t\<rparr>) # cs\<rparr>)"

section \<open>Pagination (\<open>executeGraphTool\<close>, lines 232 to 284)\<close>

text \<open>
  \<open>allItems.concat(v)\<close>: on an array it appends the elements of an array argument; a
  string has a \<open>concat\<close> of its own, which appends the coerced argument; any other
  value has no such method and the call throws.
\<close>

fun js_concat :: "builtins \<Rightarrow> jsval \<Rightarrow> jsval \<Rightarrow> js_error + jsval" where
  "js_concat B (JArr xs) (JArr ys) = Inr (JArr (xs @ ys))"
| "js_concat B (JArr xs) v = Inr (JArr (xs @ [v]))"
| "js_concat B (JStr s) v = Inr (JStr (s @ ToString B v))"
| "js_concat B a v = Inl (TypeError ''allItems.concat is not a function'')"

text \<open>
  The body of the \<open>while\<close> loop. It returns the calls it made (none when the \<open>URL\<close>
  constructor throws, else one), the client's state, and how the iteration ended:
  \<open>Inl e\<close> for a throw, \<open>Inr None\<close> for \<open>break\<close>, \<open>Inr (Some (allItems, nextLink))\<close>
  for a merged page, after which \<open>pageCount\<close> is incremented.
\<close>

definition pagination_step ::
  "builtins \<Rightarrow> 's graphRequest \<Rightarrow> request_options \<Rightarrow> 's \<Rightarrow> jsval \<Rightarrow> jsval \<Rightarrow>
   exchange list \<times> 's \<times> (js_error + (jsval \<times> jsval) option)"
where
  "pagination_step B client options st allItems nextLink =
     (case new_URL B (ToString B nextLink) of
        Inl e \<Rightarrow> ([], st, Inl e)
      | Inr u \<Rightarrow>
          (let nextPath = str_replace (pathname u) ''/v1.0'' [];
               nextOptions = options\<lparr>opt_queryParams := Some (fromEntries (searchParams u))\<rparr>
           in case client st nextPath nextOptions of
                (Inl e, st') \<Rightarrow> ([(nextPath, nextOptions, Inl e)], st', Inl e)
              | (Inr nextResponse, st') \<Rightarrow>
                  (let made = [(nextPath, nextOptions, Inr nextResponse)]
                   in if has_text nextResponse then
                        (case JSON_parse B (first_text nextResponse) of
                           Inl e \<Rightarrow> (made, st', Inl e)
                         | Inr nextJsonResponse \<Rightarrow>
                             (case get_prop nextJsonResponse ''value'' of
                                Inl e \<Rightarrow> (made, st', Inl e)
                              | Inr v \<Rightarrow>
                                  (case (if truthy v \<and> isArray v then js_concat B allItems v
                                         else Inr allItems) of
                                     Inl e \<Rightarrow> (made, st', Inl e)
                                   | Inr allItems' \<Rightarrow>
                                       (case get_prop nextJsonResponse ''@odata.nextLink'' of
                                          Inl e \<Rightarrow> (made, st', Inl e)
                                        | Inr nextLink' \<Rightarrow>
                                            (made, st', Inr (Some (allItems', nextLink')))))))
                      else (made, st', Inr None))))"

text \<open>
  \<open>while (nextLink && pageCount < 100)\<close>. The result is the calls made, the client's
  state, and either the error thrown or \<open>allItems\<close> and \<open>pageCount\<close> at the loop's exit.
\<close>

function pagination_loop ::
  "builtins \<Rightarrow> 's graphRequest \<Rightarrow> request_options \<Rightarrow> 's \<Rightarrow> jsval \<Rightarrow> jsval \<Rightarrow> nat \<Rightarrow>
   exchange list \<times> 's \<times> (js_error + jsval \<times> nat)"
where
  "pagination_loop B client options st allItems nextLink pageCount =
     (if truthy nextLink \<and> pageCount < 100 then
        (case pagination_step B client options st allItems nextLink of
           (made, st', Inl e) \<Rightarrow> (made, st', Inl e)
         | (made, st', Inr None) \<Rightarrow> (made, st', Inr (allItems, pageCount))
         | (made, st', Inr (Some (allItems', nextLink'))) \<Rightarrow>
             (case pagination_loop B client options st' allItems' nextLink' (pageCount + 1) of
                (later, st'', r) \<Rightarrow> (made @ later, st'', r)))
      else ([], st, Inr (allItems, pageCount)))"
  by pat_completeness auto
termination
  by (relation "measure (\<lambda>(B, client, options, st, allItems, nextLink, pageCount). 100 - pageCount)")
     auto

declare pagination_loop.simps [simp del]

text \<open>Lines 270 to 274: the first page's body with the merged items written into it.\<close>

definition combine_pages :: "jsval \<Rightarrow> jsval \<Rightarrow> js_error + jsval" where
  "combine_pages combinedResponse allItems =
     (case set_prop combinedResponse ''value'' allItems of
        Inl e \<Rightarrow> Inl e
      | Inr c1 \<Rightarrow>
          (case get_prop c1 ''@odata.count'' of
             Inl e \<Rightarrow> Inl e
           | Inr cnt \<Rightarrow>
               (case (if truthy cnt then
                        (case js_length allItems of
                           Inl e \<Rightarrow> Inl e
                         | Inr n \<Rightarrow> set_prop c1 ''@odata.count'' n)
                      else Inr c1) of
                  Inl e \<Rightarrow> Inl e
                | Inr c2 \<Rightarrow> Inr (delete_prop c2 ''@odata.nextLink''))))"

text \<open>
  The body of the \<open>try\<close> block: the calls made, the client's state, the warning if any,
  and either the error thrown or the new text of the first content block.
\<close>

definition fetch_pages_try ::
  "builtins \<Rightarrow> 's graphRequest \<Rightarrow> request_options \<Rightarrow> 's \<Rightarrow> string \<Rightarrow>
   exchange list \<times> 's \<times> log_entry list \<times> (js_error + string)"
where
  "fetch_pages_try B client options st firstText =
     (case JSON_parse B firstText of
        Inl e \<Rightarrow> ([], st, [], Inl e)
      | Inr combinedResponse \<Rightarrow>
          (case get_prop combinedResponse ''value'' of
             Inl e \<Rightarrow> ([], st, [], Inl e)
           | Inr v \<Rightarrow>
               (case get_prop combinedResponse ''@odata.nextLink'' of
                  Inl e \<Rightarrow> ([], st, [], Inl e)
                | Inr nextLink \<Rightarrow>
                    (case pagination_loop B client options st (js_or v (JArr [])) nextLink 1 of
                       (made, st', Inl e) \<Rightarrow> (made, st', [], Inl e)
                     | (made, st', Inr (allItems, pageCount)) \<Rightarrow>
                         (made, st', if pageCount \<ge> 100 then [WarnPageLimit] else [],
                          (case combine_pages combinedResponse allItems of
                             Inl e \<Rightarrow> Inl e
                           | Inr combined \<Rightarrow> Inr (JSON_stringify B combined)))))))"

text \<open>The \<open>try\<close> with its \<open>catch\<close>, which logs the error and leaves \<open>response\<close> as it was.\<close>

definition fetch_all_pages ::
  "builtins \<Rightarrow> 's graphRequest \<Rightarrow> request_options \<Rightarrow> 's \<Rightarrow> McpResponse \<Rightarrow>
   McpResponse \<times> exchange list \<times> 's \<times> log_entry list"
where
  "fetch_all_pages B client options st response =
     (case fetch_pages_try B client options st (first_text response) of
        (made, st', logged, Inl e) \<Rightarrow> (response, made, st', logged @ [ErrorDuringPagination e])
      | (made, st', logged, Inr t) \<Rightarrow> (set_first_text response t, made, st', logged))"

section \<open>\<open>executeGraphTool\<close>\<close>

text \<open>What one invocation does: the envelope it returns, the calls it made to the client
  in order, what it logged, and the client's state afterwards.\<close>

record 's run =
  run_result :: CallToolResult
  run_exchanges :: "exchange list"
  run_log :: "log_entry list"
  run_state :: 's

text \<open>The outer \<open>catch\<close>.\<close>

definition tool_error_result :: "builtins \<Rightarrow> endpoint \<Rightarrow> js_error \<Rightarrow> CallToolResult" where
  "tool_error_result B tool e =
     \<lparr>ctr_content =
        [TextContent
           (JSON_stringify B
              (JObj [(''error'', JStr (''Error in tool '' @ tool_alias tool @ '': '' @ message e))]))],
      ctr_meta = None,
      ctr_isError = Some True\<rparr>"

text \<open>Lines 304 to 313.\<close>

definition to_result :: "McpResponse \<Rightarrow> CallToolResult" where
  "to_result response =
     \<lparr>ctr_content = map (\<lambda>item. TextContent (mc_text item)) (resp_content response),
      ctr_meta = resp_meta response,
      ctr_isError = resp_isError response\<rparr>"

definition executeGraphTool ::
  "builtins \<Rightarrow> endpoint \<Rightarrow> EndpointConfig option \<Rightarrow> 's graphRequest \<Rightarrow> 's \<Rightarrow>
   (string \<times> jsval) list \<Rightarrow> 's run"
where
  "executeGraphTool B tool config client st params =
     (case build_request B tool config params of
        Inl e \<Rightarrow>
          \<lparr>run_result = tool_error_result B tool e, run_exchanges = [],
           run_log = [ErrorInTool (tool_alias tool) e], run_state = st\<rparr>
      | Inr (path, options) \<Rightarrow>
          (case client st path options of
             (Inl e, st1) \<Rightarrow>
               \<lparr>run_result = tool_error_result B tool e,
                run_exchanges = [(path, options, Inl e)],
                run_log = [ErrorInTool (tool_alias tool) e], run_state = st1\<rparr>
           | (Inr response, st1) \<Rightarrow>
               (if param_get params ''fetchAllPages'' = JBool True \<and> has_text response then
                  (case fetch_all_pages B client options st1 response of
                     (response', made, st2, logged) \<Rightarrow>
                       \<lparr>run_result = to_result response',
                        run_exchanges = (path, options, Inr response) # made,
                        run_log = logged, run_state = st2\<rparr>)
                else
                  \<lparr>run_result = to_result response,
                   run_exchanges = [(path, options, Inr response)],
                   run_log = [], run_state = st1\<rparr>)))"

section \<open>Discovery mode: the tools registry and \<open>execute-tool\<close>\<close>

text \<open>
  \<open>api.endpoints\<close> (the generated client) and \<open>endpointsData\<close> (\<open>endpoints.json\<close>)
  are module constants whose contents are data, not code; they are arguments here.
\<close>

definition find_config :: "EndpointConfig list \<Rightarrow> endpoint \<Rightarrow> EndpointConfig option" where
  "find_config endpointsData tool = find (\<lambda>e. cfg_toolName e = tool_alias tool) endpointsData"

text \<open>\<open>endpointConfig && !endpointConfig.scopes && endpointConfig.workScopes\<close>.\<close>

definition work_account_only :: "EndpointConfig option \<Rightarrow> bool" where
  "work_account_only endpointConfig =
     (case endpointConfig of
        None \<Rightarrow> False
      | Some c \<Rightarrow> cfg_scopes c = None \<and> cfg_workScopes c \<noteq> None)"

text \<open>The registry is a \<open>Map\<close>: an association list with \<open>set\<close> as \<open>AList.update\<close> and
  \<open>get\<close> as \<open>map_of\<close>.\<close>

definition buildToolsRegistry ::
  "builtins \<Rightarrow> endpoint list \<Rightarrow> EndpointConfig list \<Rightarrow> bool \<Rightarrow> bool \<Rightarrow>
   (string \<times> endpoint \<times> EndpointConfig option) list"
where
  "buildToolsRegistry B endpoints endpointsData readOnly orgMode =
     foldl
       (\<lambda>toolsMap tool.
          (let endpointConfig = find_config endpointsData tool
           in if \<not> orgMode \<and> work_account_only endpointConfig then toolsMap
              else if readOnly \<and> toUpperCase B (tool_method tool) \<noteq> ''GET'' then toolsMap
              else AList.update (tool_alias tool) (tool, endpointConfig) toolsMap))
       [] endpoints"

definition tool_not_found :: "builtins \<Rightarrow> string \<Rightarrow> CallToolResult" where
  "tool_not_found B tool_name =
     \<lparr>ctr_content =
        [TextContent
           (JSON_stringify B
              (JObj [(''error'', JStr (''Tool not found: '' @ tool_name)),
                     (''tip'', JStr ''Use search-tools to find available tools.'')]))],
      ctr_meta = None,
      ctr_isError = Some True\<rparr>"

text \<open>The handler of \<open>execute-tool\<close>; \<open>parameters\<close> defaults to the empty object.\<close>

definition execute_tool ::
  "builtins \<Rightarrow> (string \<times> endpoint \<times> EndpointConfig option) list \<Rightarrow> 's graphRequest \<Rightarrow> 's \<Rightarrow>
   string \<Rightarrow> (string \<times> jsval) list option \<Rightarrow> 's run"
where
  "execute_tool B toolsRegistry client st tool_name parameters =
     (case map_of toolsRegistry tool_name of
        None \<Rightarrow>
          \<lparr>run_result = tool_not_found B tool_name, run_exchanges = [], run_log = [],
           run_state = st\<rparr>
      | Some (tool, config) \<Rightarrow>
          executeGraphTool B tool config client st
            (case parameters of None \<Rightarrow> [] | Some ps \<Rightarrow> ps))"

section \<open>Composite workflow: \<open>getTranscriptByMeeting\<close>\<close>

record GetTranscriptParams =
  gp_date :: string
  gp_subjectContains :: string
  gp_startTime :: "string option"
  gp_endTime :: "string option"
  gp_timezone :: "string option"

text \<open>
  \<open>graphClient.makeRequest(path, options)\<close> returns the parsed JSON or throws. A stage
  of the workflow yields the envelope it returns (or the error it lets escape to the
  outer \<open>catch\<close>), the calls it made and the client's state.
\<close>

type_synonym 's makeRequest = "'s \<Rightarrow> string \<Rightarrow> jsval \<Rightarrow> (js_error + jsval) \<times> 's"

type_synonym 's stage = "(js_error + CallToolResult) \<times> (string \<times> jsval) list \<times> 's"

record 's workflow_run =
  wf_result :: CallToolResult
  wf_calls :: "(string \<times> jsval) list"
  wf_state :: 's

definition failure :: "string \<Rightarrow> CallToolResult" where
  "failure t = \<lparr>ctr_content = [TextContent t], ctr_meta = None, ctr_isError = Some True\<rparr>"

text \<open>
  \<open>v?.k\<close> and \<open>v[0]\<close>. Reading a property throws on \<open>undefined\<close> and
  \<open>null\<close> only, so once one property of a value has been read, \<open>opt_prop\<close> is also
  the plain read of any other.
\<close>

definition opt_prop :: "jsval \<Rightarrow> string \<Rightarrow> jsval" where
  "opt_prop v k =
     (if nullish v then JUndefined
      else (case get_prop v k of Inl e \<Rightarrow> JUndefined | Inr x \<Rightarrow> x))"

fun index0 :: "jsval \<Rightarrow> js_error + jsval" where
  "index0 (JArr (x # xs)) = Inr x"
| "index0 (JStr (c # cs)) = Inr (JStr [c])"
| "index0 v = get_prop v ''0''"

text \<open>
  The predicate of \<open>events.find\<close>:
  \<open>event.subject?.toLowerCase().includes(subjectContains.toLowerCase()) &&
  event.isOnlineMeeting === true\<close>. A subject that is neither absent nor a string has
  no \<open>toLowerCase\<close>, and the call throws.
\<close>

definition subject_matches :: "builtins \<Rightarrow> string \<Rightarrow> jsval \<Rightarrow> js_error + bool" where
  "subject_matches B subjectContains event =
     (case get_prop event ''subject'' of
        Inl e \<Rightarrow> Inl e
      | Inr subject \<Rightarrow>
          if nullish subject then Inr False
          else
            (case subject of
               JStr s \<Rightarrow>
                 if str_includes (toLowerCase B s) (toLowerCase B subjectContains) then
                   (case get_prop event ''isOnlineMeeting'' of
                      Inl e \<Rightarrow> Inl e
                    | Inr b \<Rightarrow> Inr (b = JBool True))
                 else Inr False
             | _ \<Rightarrow> Inl (TypeError ''event.subject?.toLowerCase is not a function'')))"

fun find_event :: "builtins \<Rightarrow> string \<Rightarrow> jsval list \<Rightarrow> js_error + jsval option" where
  "find_event B subjectContains [] = Inr None"
| "find_event B subjectContains (event # events) =
     (case subject_matches B subjectContains event of
        Inl e \<Rightarrow> Inl e
      | Inr found \<Rightarrow>
          if found then Inr (Some event) else find_event B subjectContains events)"

text \<open>\<open>events.filter((e) => e.isOnlineMeeting)\<close>.\<close>

fun online_meetings :: "jsval list \<Rightarrow> js_error + jsval list" where
  "online_meetings [] = Inr []"
| "online_meetings (e # es) =
     (case get_prop e ''isOnlineMeeting'' of
        Inl err \<Rightarrow> Inl err
      | Inr b \<Rightarrow>
          (case online_meetings es of
             Inl err \<Rightarrow> Inl err
           | Inr rest \<Rightarrow> Inr (if truthy b then e # rest else rest)))"

text \<open>\<open>`- ${e.subject} (${e.start?.dateTime})`\<close>.\<close>

definition meeting_line :: "builtins \<Rightarrow> jsval \<Rightarrow> js_error + string" where
  "meeting_line B e =
     (case get_prop e ''subject'' of
        Inl err \<Rightarrow> Inl err
      | Inr subject \<Rightarrow>
          (case get_prop e ''start'' of
             Inl err \<Rightarrow> Inl err
           | Inr start \<Rightarrow>
               Inr (''- '' @ ToString B subject @ '' ('' @ ToString B (opt_prop start ''dateTime'')
                    @ '')'')))"

fun meeting_lines :: "builtins \<Rightarrow> jsval list \<Rightarrow> js_error + string list" where
  "meeting_lines B [] = Inr []"
| "meeting_lines B (e # es) =
     (case meeting_line B e of
        Inl err \<Rightarrow> Inl err
      | Inr l \<Rightarrow>
          (case meeting_lines B es of
             Inl err \<Rightarrow> Inl err
           | Inr ls \<Rightarrow> Inr (l # ls)))"

text \<open>The envelope of lines 134 to 147, returned when no event matched.\<close>

definition no_match_result ::
  "builtins \<Rightarrow> GetTranscriptParams \<Rightarrow> jsval list \<Rightarrow> js_error + CallToolResult"
where
  "no_match_result B params events =
     (case online_meetings events of
        Inl err \<Rightarrow> Inl err
      | Inr online \<Rightarrow>
          (case meeting_lines B online of
             Inl err \<Rightarrow> Inl err
           | Inr ls \<Rightarrow>
               (let availableMeetings = str_join newline ls
                in Inr (failure
                     (''No online meeting found matching '' @ dquote @ gp_subjectContains params
                      @ dquote @ ''.'' @ newline @ newline @ ''Available online meetings on ''
                      @ gp_date params @ '':'' @ newline
                      @ (if availableMeetings \<noteq> [] then availableMeetings else ''(none)''))))))"

text \<open>Lines 246 to 270: the success envelope.\<close>

definition transcript_result ::
  "builtins \<Rightarrow> jsval \<Rightarrow> jsval \<Rightarrow> jsval \<Rightarrow> jsval \<Rightarrow> jsval \<Rightarrow> js_error + CallToolResult"
where
  "transcript_result B matchingEvent onlineMeeting transcript transcriptId contentData =
     (case get_prop contentData ''rawResponse'' of
        Inl e \<Rightarrow> Inl e
      | Inr rawResponse \<Rightarrow>
          (case get_prop matchingEvent ''subject'' of
             Inl e \<Rightarrow> Inl e
           | Inr subject \<Rightarrow>
               (case get_prop onlineMeeting ''participants'' of
                  Inl e \<Rightarrow> Inl e
                | Inr participants \<Rightarrow>
                    (case get_prop transcript ''createdDateTime'' of
                       Inl e \<Rightarrow> Inl e
                     | Inr createdDateTime \<Rightarrow>
                         (let vttContent =
                                js_or (js_or rawResponse (opt_prop contentData ''message''))
                                  (JStr ''No content'');
                              result =
                                JObj
                                  [(''meeting'',
                                    JObj
                                      [(''subject'', subject),
                                       (''start'', opt_prop matchingEvent ''start''),
                                       (''end'', opt_prop matchingEvent ''end''),
                                       (''organizer'',
                                        js_or (opt_prop (opt_prop participants ''organizer'') ''upn'')
                                          (JStr ''unknown''))]),
                                   (''transcript'',
                                    JObj
                                      [(''id'', transcriptId),
                                       (''createdDateTime'', createdDateTime),
                                       (''endDateTime'', opt_prop transcript ''endDateTime'')]),
                                   (''content'', vttContent)]
                          in Inr \<lparr>ctr_content = [TextContent (JSON_stringify_pretty B result)],
                                  ctr_meta = None, ctr_isError = None\<rparr>)))))"

text \<open>Step 7: fetch the transcript's content.\<close>

definition fetch_transcript_content ::
  "builtins \<Rightarrow> 's makeRequest \<Rightarrow> 's \<Rightarrow> jsval \<Rightarrow> jsval \<Rightarrow> jsval \<Rightarrow> jsval \<Rightarrow> 's stage"
where
  "fetch_transcript_content B makeRequest st matchingEvent onlineMeeting meetingId transcript =
     (case get_prop transcript ''id'' of
        Inl e \<Rightarrow> (Inl e, [], st)
      | Inr transcriptId \<Rightarrow>
          (let contentPath = ''/me/onlineMeetings/'' @ ToString B meetingId @ ''/transcripts/''
                             @ ToString B transcriptId @ ''/content'';
               options = JObj [(''headers'', JObj [(''Accept'', JStr ''text/vtt'')])]
           in case makeRequest st contentPath options of
                (Inl e, st') \<Rightarrow>
                  (Inr (failure (''Failed to fetch transcript content: '' @ message e)),
                   [(contentPath, options)], st')
              | (Inr contentData, st') \<Rightarrow>
                  (transcript_result B matchingEvent onlineMeeting transcript transcriptId
                     contentData,
                   [(contentPath, options)], st')))"

text \<open>Step 6: list the transcripts of the meeting and take the first.\<close>

definition list_transcripts ::
  "builtins \<Rightarrow> 's makeRequest \<Rightarrow> 's \<Rightarrow> jsval \<Rightarrow> jsval \<Rightarrow> 's stage"
where
  "list_transcripts B makeRequest st matchingEvent onlineMeeting =
     (case get_prop onlineMeeting ''id'' of
        Inl e \<Rightarrow> (Inl e, [], st)
      | Inr meetingId \<Rightarrow>
          (let transcriptsPath = ''/me/onlineMeetings/'' @ ToString B meetingId @ ''/transcripts''
           in case makeRequest st transcriptsPath (JObj []) of
                (Inl e, st') \<Rightarrow>
                  (Inr (failure (''Failed to list transcripts: '' @ message e)),
                   [(transcriptsPath, JObj [])], st')
              | (Inr transcriptsData, st') \<Rightarrow>
                  (case get_prop transcriptsData ''value'' of
                     Inl e \<Rightarrow> (Inl e, [(transcriptsPath, JObj [])], st')
                   | Inr v \<Rightarrow>
                       (let transcripts = js_or v (JArr [])
                        in case js_length transcripts of
                             Inl e \<Rightarrow> (Inl e, [(transcriptsPath, JObj [])], st')
                           | Inr n \<Rightarrow>
                               if n = JNum 0 then
                                 (case get_prop matchingEvent ''subject'' of
                                    Inl e \<Rightarrow> (Inl e, [(transcriptsPath, JObj [])], st')
                                  | Inr subject \<Rightarrow>
                                      (Inr (failure
                                         (''No transcripts found for meeting '' @ dquote
                                          @ ToString B subject @ dquote @ ''.'' @ newline @ newline
                                          @ ''Note: Transcription must be enabled during the meeting to generate transcripts.'')),
                                       [(transcriptsPath, JObj [])], st'))
                               else
                                 (case index0 transcripts of
                                    Inl e \<Rightarrow> (Inl e, [(transcriptsPath, JObj [])], st')
                                  | Inr transcript \<Rightarrow>
                                      (case fetch_transcript_content B makeRequest st' matchingEvent
                                              onlineMeeting meetingId transcript of
                                         (r, calls, st'') \<Rightarrow>
                                           (r, (transcriptsPath, JObj []) # calls, st'')))))))"

text \<open>Step 5: resolve the online meeting from its join URL.\<close>

definition resolve_meeting ::
  "builtins \<Rightarrow> 's makeRequest \<Rightarrow> 's \<Rightarrow> jsval \<Rightarrow> jsval \<Rightarrow> 's stage"
where
  "resolve_meeting B makeRequest st matchingEvent joinUrl =
     (case encodeURIComponent B (ToString B joinUrl) of
        Inl e \<Rightarrow> (Inl e, [], st)
      | Inr enc \<Rightarrow>
          (let meetingsPath = ''/me/onlineMeetings?$filter=JoinWebUrl eq '' @ squote @ enc @ squote
           in case makeRequest st meetingsPath (JObj []) of
                (Inl e, st') \<Rightarrow>
                  (Inr (failure (''Failed to resolve meeting ID: '' @ message e)),
                   [(meetingsPath, JObj [])], st')
              | (Inr meetingsData, st') \<Rightarrow>
                  (case get_prop meetingsData ''value'' of
                     Inl e \<Rightarrow> (Inl e, [(meetingsPath, JObj [])], st')
                   | Inr v \<Rightarrow>
                       (case (if nullish v then Inr JUndefined else index0 v) of
                          Inl e \<Rightarrow> (Inl e, [(meetingsPath, JObj [])], st')
                        | Inr onlineMeeting \<Rightarrow>
                            if \<not> truthy onlineMeeting then
                              (case get_prop matchingEvent ''subject'' of
                                 Inl e \<Rightarrow> (Inl e, [(meetingsPath, JObj [])], st')
                               | Inr subject \<Rightarrow>
                                   (Inr (failure
                                      (''Could not resolve online meeting for '' @ dquote
                                       @ ToString B subject @ dquote)),
                                    [(meetingsPath, JObj [])], st'))
                            else
                              (case list_transcripts B makeRequest st' matchingEvent onlineMeeting of
                                 (r, calls, st'') \<Rightarrow>
                                   (r, (meetingsPath, JObj []) # calls, st''))))))"

text \<open>Step 4: the full event, for its join URL.\<close>

definition event_details :: "builtins \<Rightarrow> 's makeRequest \<Rightarrow> 's \<Rightarrow> jsval \<Rightarrow> 's stage" where
  "event_details B makeRequest st matchingEvent =
     (case get_prop matchingEvent ''id'' of
        Inl e \<Rightarrow> (Inl e, [], st)
      | Inr eventId \<Rightarrow>
          (let eventPath = ''/me/events/'' @ ToString B eventId
                 @ ''?$select=subject,onlineMeeting,onlineMeetingUrl,isOnlineMeeting''
           in case makeRequest st eventPath (JObj []) of
                (Inl e, st') \<Rightarrow>
                  (Inr (failure (''Failed to get event details: '' @ message e)),
                   [(eventPath, JObj [])], st')
              | (Inr eventData, st') \<Rightarrow>
                  (case get_prop eventData ''onlineMeeting'' of
                     Inl e \<Rightarrow> (Inl e, [(eventPath, JObj [])], st')
                   | Inr onlineMeeting \<Rightarrow>
                       (let joinUrl = opt_prop onlineMeeting ''joinUrl''
                        in if \<not> truthy joinUrl then
                             (case get_prop matchingEvent ''subject'' of
                                Inl e \<Rightarrow> (Inl e, [(eventPath, JObj [])], st')
                              | Inr subject \<Rightarrow>
                                  (Inr (failure
                                     (''Meeting '' @ dquote @ ToString B subject @ dquote
                                      @ '' does not have a Teams join URL'')),
                                   [(eventPath, JObj [])], st'))
                           else
                             (case resolve_meeting B makeRequest st' matchingEvent joinUrl of
                                (r, calls, st'') \<Rightarrow> (r, (eventPath, JObj []) # calls, st''))))))"

text \<open>Step 3, after the calendar query returned \<open>calendarData\<close>: find the meeting.\<close>

definition match_subject ::
  "builtins \<Rightarrow> 's makeRequest \<Rightarrow> 's \<Rightarrow> GetTranscriptParams \<Rightarrow> jsval \<Rightarrow> 's stage"
where
  "match_subject B makeRequest st params calendarData =
     (case get_prop calendarData ''value'' of
        Inl e \<Rightarrow> (Inl e, [], st)
      | Inr v \<Rightarrow>
          (let events = js_or v (JArr [])
           in case js_length events of
                Inl e \<Rightarrow> (Inl e, [], st)
              | Inr n \<Rightarrow>
                  if n = JNum 0 then
                    (Inr (failure (''No meetings found on '' @ gp_date params)), [], st)
                  else
                    (case events of
                       JArr evs \<Rightarrow>
                         (case find_event B (gp_subjectContains params) evs of
                            Inl e \<Rightarrow> (Inl e, [], st)
                          | Inr None \<Rightarrow> (no_match_result B params evs, [], st)
                          | Inr (Some matchingEvent) \<Rightarrow>
                              event_details B makeRequest st matchingEvent)
                     | _ \<Rightarrow> (Inl (TypeError ''events.find is not a function''), [], st))))"

text \<open>\<open>startTime ? a : b\<close>: an absent or empty time takes the default.\<close>

definition startDateTime :: "GetTranscriptParams \<Rightarrow> string" where
  "startDateTime params =
     (case gp_startTime params of
        None \<Rightarrow> gp_date params @ ''T00:00:00''
      | Some startTime \<Rightarrow>
          if startTime \<noteq> [] then gp_date params @ ''T'' @ startTime @ '':00''
          else gp_date params @ ''T00:00:00'')"

definition endDateTime :: "GetTranscriptParams \<Rightarrow> string" where
  "endDateTime params =
     (case gp_endTime params of
        None \<Rightarrow> gp_date params @ ''T23:59:59''
      | Some endTime \<Rightarrow>
          if endTime \<noteq> [] then gp_date params @ ''T'' @ endTime @ '':00''
          else gp_date params @ ''T23:59:59'')"

text \<open>Steps 1 and 2: the calendar query; an error that escapes becomes the envelope of
  the outer \<open>catch\<close>.\<close>

definition calendarPath :: "string \<Rightarrow> string \<Rightarrow> string" where
  "calendarPath encStart encEnd =
     ''/me/calendarView?startDateTime='' @ encStart @ ''&endDateTime='' @ encEnd"

definition calendarOptions :: "GetTranscriptParams \<Rightarrow> jsval" where
  "calendarOptions params =
     (let timezone = (case gp_timezone params of None \<Rightarrow> ''UTC'' | Some tz \<Rightarrow> tz)
      in JObj [(''headers'',
                JObj [(''Prefer'', JStr (''outlook.timezone='' @ dquote @ timezone @ dquote))])])"

definition calendar_query ::
  "builtins \<Rightarrow> 's makeRequest \<Rightarrow> 's \<Rightarrow> GetTranscriptParams \<Rightarrow> 's stage"
where
  "calendar_query B makeRequest st params =
     (case encodeURIComponent B (startDateTime params) of
        Inl e \<Rightarrow> (Inl e, [], st)
      | Inr encStart \<Rightarrow>
          (case encodeURIComponent B (endDateTime params) of
             Inl e \<Rightarrow> (Inl e, [], st)
           | Inr encEnd \<Rightarrow>
               (case makeRequest st (calendarPath encStart encEnd) (calendarOptions params) of
                  (Inl e, st') \<Rightarrow>
                    (Inr (failure (''Failed to query calendar: '' @ message e)),
                     [(calendarPath encStart encEnd, calendarOptions params)], st')
                | (Inr calendarData, st') \<Rightarrow>
                    (case match_subject B makeRequest st' params calendarData of
                       (r, calls, st'') \<Rightarrow>
                         (r, (calendarPath encStart encEnd, calendarOptions params) # calls,
                          st'')))))"

definition getTranscriptByMeeting ::
  "builtins \<Rightarrow> 's makeRequest \<Rightarrow> 's \<Rightarrow> GetTranscriptParams \<Rightarrow> 's workflow_run"
where
  "getTranscriptByMeeting B makeRequest st params =
     (case calendar_query B makeRequest st params of
        (Inl e, calls, st') \<Rightarrow>
          \<lparr>wf_result = failure (''Error retrieving transcript: '' @ message e),
           wf_calls = calls, wf_state = st'\<rparr>
      | (Inr r, calls, st') \<Rightarrow> \<lparr>wf_result = r, wf_calls = calls, wf_state = st'\<rparr>)"

section \<open>A concrete platform and concrete clients, for the examples\<close>

text \<open>
  The built-ins as Node computes them on the inputs of the examples: \<open>toLowerCase\<close> and
  \<open>toUpperCase\<close> on ASCII letters, \<open>encodeURIComponent\<close> on bytes (every byte that
  is not an unreserved character becomes \<open>%XX\<close>), \<open>JSON.stringify\<close> and the string
  coercion on values whose numbers are integers and whose strings need no escape beyond
  the quote and the backslash, and \<open>JSON.parse\<close> and \<open>new URL\<close> as tables over the
  JSON texts and the links that the example clients produce (the one other text they
  produce, "Service Unavailable", is no JSON).
\<close>

definition ascii_lower :: "string \<Rightarrow> string" where
  "ascii_lower s =
     map (\<lambda>c. case map_of (zip ''ABCDEFGHIJKLMNOPQRSTUVWXYZ'' ''abcdefghijklmnopqrstuvwxyz'') c of
                 None \<Rightarrow> c | Some d \<Rightarrow> d) s"

definition ascii_upper :: "string \<Rightarrow> string" where
  "ascii_upper s =
     map (\<lambda>c. case map_of (zip ''abcdefghijklmnopqrstuvwxyz'' ''ABCDEFGHIJKLMNOPQRSTUVWXYZ'') c of
                 None \<Rightarrow> c | Some d \<Rightarrow> d) s"

definition unreserved :: "char \<Rightarrow> bool" where
  "unreserved c =
     (c \<in> set (''ABCDEFGHIJKLMNOPQRSTUVWXYZabcdefghijklmnopqrstuvwxyz0123456789-_.!~*()''
                @ squote))"

definition hex_digit :: "nat \<Rightarrow> char" where
  "hex_digit n = ''0123456789ABCDEF'' ! (n mod 16)"

definition percent_encode :: "string \<Rightarrow> string" where
  "percent_encode s =
     concat (map (\<lambda>c. if unreserved c then [c]
                       else [CHR ''%'', hex_digit (of_char c div 16), hex_digit (of_char c)]) s)"

fun decimal :: "nat \<Rightarrow> string" where
  "decimal n =
     (if n < 10 then [''0123456789'' ! n]
      else decimal (n div 10) @ [''0123456789'' ! (n mod 10)])"

declare decimal.simps [simp del]

definition show_num :: "rat \<Rightarrow> string" where
  "show_num n =
     (let i = \<lfloor>n\<rfloor> in if i < 0 then ''-'' @ decimal (nat (- i)) else decimal (nat i))"

definition quoted :: "string \<Rightarrow> string" where
  "quoted s =
     dquote
     @ concat (map (\<lambda>c. if c = CHR 0x22 \<or> c = CHR 0x5C then [CHR 0x5C, c] else [c]) s)
     @ dquote"

fun show_json :: "jsval \<Rightarrow> string" where
  "show_json JUndefined = ''null''"
| "show_json JNull = ''null''"
| "show_json (JBool b) = (if b then ''true'' else ''false'')"
| "show_json (JNum n) = show_num n"
| "show_json (JStr s) = quoted s"
| "show_json (JArr xs) = ''['' @ str_join '','' (map show_json xs) @ '']''"
| "show_json (JObj kvs) =
     ''{''
     @ str_join '',''
         (map (\<lambda>(k, v). quoted k @ '':'' @ show_json v)
            (filter (\<lambda>(k, v). v \<noteq> JUndefined) kvs))
     @ ''}''"

text \<open>\<open>JSON.stringify(v, null, 2)\<close>, at the indentation \<open>ind\<close>.\<close>

fun show_pretty :: "string \<Rightarrow> jsval \<Rightarrow> string" where
  "show_pretty ind (JArr xs) =
     (if xs = [] then ''[]''
      else ''['' @ newline
           @ str_join ('','' @ newline) (map (\<lambda>x. ind @ ''  '' @ show_pretty (ind @ ''  '') x) xs)
           @ newline @ ind @ '']'')"
| "show_pretty ind (JObj kvs) =
     (if filter (\<lambda>(k, v). v \<noteq> JUndefined) kvs = [] then ''{}''
      else ''{'' @ newline
           @ str_join ('','' @ newline)
               (map (\<lambda>(k, v). ind @ ''  '' @ quoted k @ '': '' @ show_pretty (ind @ ''  '') v)
                  (filter (\<lambda>(k, v). v \<noteq> JUndefined) kvs))
           @ newline @ ind @ ''}'')"
| "show_pretty ind v = show_json v"

text \<open>The string coercion; an array is its elements joined by commas, with \<open>null\<close> and
  \<open>undefined\<close> elements left empty.\<close>

fun show_string :: "jsval \<Rightarrow> string" where
  "show_string JUndefined = ''undefined''"
| "show_string JNull = ''null''"
| "show_string (JBool b) = (if b then ''true'' else ''false'')"
| "show_string (JNum n) = show_num n"
| "show_string (JStr s) = s"
| "show_string (JArr xs) =
     str_join '','' (map (\<lambda>x. if nullish x then [] else show_string x) xs)"
| "show_string (JObj kvs) = ''[object Object]''"

text \<open>The cursors of the example mailbox and the pages behind them.\<close>

definition skip_link :: "string \<Rightarrow> string" where
  "skip_link k = ''https://graph.microsoft.com/v1.0/me/messages?$skip='' @ k"

definition page1_fields :: "(string \<times> jsval) list" where
  "page1_fields = [(''@odata.count'', JNum 3), (''value'', JArr [JStr ''m1'']),
                   (''@odata.nextLink'', JStr (skip_link ''1''))]"

definition page1 :: jsval where
  "page1 = JObj page1_fields"

definition page2 :: jsval where
  "page2 = JObj [(''value'', JArr [JStr ''m2'']), (''@odata.nextLink'', JStr (skip_link ''2''))]"

definition page3 :: jsval where
  "page3 = JObj [(''value'', JArr [JStr ''m3''])]"

definition contacts_page :: jsval where
  "contacts_page = JObj [(''@odata.count'', JNum 0), (''value'', JArr [JStr ''c1''])]"

text \<open>A page whose cursor points at the beta version of the external API.\<close>

definition beta_link :: string where
  "beta_link = ''https://graph.microsoft.com/beta/me/messages?$skip=1''"

definition beta_page :: jsval where
  "beta_page = JObj [(''value'', JArr [JStr ''b1'']), (''@odata.nextLink'', JStr beta_link)]"

definition beta_url :: url where
  "beta_url = \<lparr>pathname = ''/beta/me/messages'', searchParams = [(''$skip'', ''1'')]\<rparr>"

definition parse_table :: "(string \<times> jsval) list" where
  "parse_table = map (\<lambda>v. (show_json v, v)) [page1, page2, page3, contacts_page, beta_page]"

definition url_table :: "(string \<times> url) list" where
  "url_table =
     map (\<lambda>k. (skip_link k, \<lparr>pathname = ''/v1.0/me/messages'', searchParams = [(''$skip'', k)]\<rparr>))
       [''1'', ''2'']
     @ [(beta_link, beta_url)]"

definition node :: builtins where
  "node =
     \<lparr>JSON_parse = (\<lambda>t. case map_of parse_table t of
                           None \<Rightarrow> Inl (SyntaxError ''Unexpected token'')
                         | Some v \<Rightarrow> Inr v),
      JSON_stringify = show_json,
      JSON_stringify_pretty = show_pretty [],
      ToString = show_string,
      encodeURIComponent = (\<lambda>s. Inr (percent_encode s)),
      new_URL = (\<lambda>s. case map_of url_table s of
                        None \<Rightarrow> Inl (TypeError ''Invalid URL'')
                      | Some u \<Rightarrow> Inr u),
      toLowerCase = ascii_lower,
      toUpperCase = ascii_upper\<rparr>"

definition text_response :: "string \<Rightarrow> McpResponse" where
  "text_response t =
     \<lparr>resp_content = [\<lparr>mc_type = ''text'', mc_text = t\<rparr>], resp_meta = None,
      resp_isError = None\<rparr>"

text \<open>
  A mailbox of three pages, a mailbox whose third page is not JSON, a mailbox whose
  first page points at the beta version, a mailbox that hands out the same cursor for
  ever, and a contacts folder whose count field is zero.
\<close>

definition mailbox :: "unit graphRequest" where
  "mailbox st path options =
     (Inr (text_response
        (if path = ''/me/contacts'' then show_json contacts_page
         else if opt_queryParams options = None then show_json page1
         else if opt_queryParams options = Some [(''$skip'', ''1'')] then show_json page2
         else show_json page3)), st)"

definition broken_mailbox :: "unit graphRequest" where
  "broken_mailbox st path options =
     (Inr (text_response
        (if opt_queryParams options = None then show_json page1
         else if opt_queryParams options = Some [(''$skip'', ''1'')] then show_json page2
         else ''Service Unavailable'')), st)"

definition beta_mailbox :: "unit graphRequest" where
  "beta_mailbox st path options =
     (Inr (text_response
        (if opt_queryParams options = None then show_json beta_page else show_json page3)), st)"

definition endless_mailbox :: "nat graphRequest" where
  "endless_mailbox n path options = (Inr (text_response (show_json page1)), Suc n)"

definition top_parameter :: param_def where
  "top_parameter = \<lparr>pd_name = ''top'', pd_type = Query, pd_schema = None\<rparr>"

definition filter_parameter :: param_def where
  "filter_parameter = \<lparr>pd_name = ''filter'', pd_type = Query, pd_schema = None\<rparr>"

definition list_mail_messages :: endpoint where
  "list_mail_messages =
     \<lparr>tool_alias = ''list-mail-messages'', tool_path = ''/me/messages'', tool_method = ''get'',
      tool_description = None,
      tool_parameters = Some [top_parameter, filter_parameter],
      tool_errors = None\<rparr>"

definition list_contacts :: endpoint where
  "list_contacts =
     \<lparr>tool_alias = ''list-outlook-contacts'', tool_path = ''/me/contacts'', tool_method = ''get'',
      tool_description = None, tool_parameters = None, tool_errors = None\<rparr>"

text \<open>A tool with a declared body schema that accepts any object, as the generated
  \<open>z.object({...}).partial().passthrough()\<close> schemas do.\<close>

definition is_object :: "jsval \<Rightarrow> bool" where
  "is_object v = (case v of JObj kvs \<Rightarrow> True | _ \<Rightarrow> False)"

definition never_valid :: "jsval \<Rightarrow> bool" where
  "never_valid v = False"

definition body_parameter :: param_def where
  "body_parameter = \<lparr>pd_name = ''body'', pd_type = Body, pd_schema = Some is_object\<rparr>"

definition strict_parameter :: param_def where
  "strict_parameter = \<lparr>pd_name = ''body'', pd_type = Body, pd_schema = Some never_valid\<rparr>"

definition send_mail :: endpoint where
  "send_mail =
     \<lparr>tool_alias = ''send-mail'', tool_path = ''/me/sendMail'', tool_method = ''post'',
      tool_description = None, tool_parameters = Some [body_parameter], tool_errors = None\<rparr>"

definition strict_send_mail :: endpoint where
  "strict_send_mail = send_mail\<lparr>tool_parameters := Some [strict_parameter]\<rparr>"

definition empty_state :: binder_state where
  "empty_state = \<lparr>bs_path = ''/me/sendMail'', bs_queryParams = [], bs_headers = [], bs_body = JNull\<rparr>"

text \<open>A day with two online meetings and one that is not online.\<close>

definition planning_sync :: jsval where
  "planning_sync =
     JObj [(''subject'', JStr ''Q1 Planning Sync''), (''isOnlineMeeting'', JBool True),
           (''start'', JObj [(''dateTime'', JStr ''2026-01-16T09:00:00.0000000'')])]"

definition design_review :: jsval where
  "design_review =
     JObj [(''subject'', JStr ''Design Review''), (''isOnlineMeeting'', JBool True),
           (''start'', JObj [(''dateTime'', JStr ''2026-01-16T14:00:00.0000000'')])]"

definition lunch :: jsval where
  "lunch =
     JObj [(''subject'', JStr ''Lunch''), (''isOnlineMeeting'', JBool False),
           (''start'', JObj [(''dateTime'', JStr ''2026-01-16T12:00:00.0000000'')])]"

definition calendar_day :: "jsval list" where
  "calendar_day = [planning_sync, lunch, design_review]"

definition calendar :: "unit makeRequest" where
  "calendar st path options = (Inr (JObj [(''value'', JArr calendar_day)]), st)"

definition nonexistent_query :: GetTranscriptParams where
  "nonexistent_query =
     \<lparr>gp_date = ''2026-01-16'', gp_subjectContains = ''nonexistent'', gp_startTime = None,
      gp_endTime = None, gp_timezone = None\<rparr>"

definition mail_registry :: "(string \<times> endpoint \<times> EndpointConfig option) list" where
  "mail_registry = buildToolsRegistry node [list_mail_messages, list_contacts] [] False False"

definition quoted_flags :: "(string \<times> jsval) list" where
  "quoted_flags =
     [(''fetchAllPages'', JStr ''true''), (''includeHeaders'', JStr ''true''),
      (''excludeResponse'', JNum 1)]"

definition plain_get :: request_options where
  "plain_get =
     \<lparr>opt_method = ''GET'', opt_headers = [], opt_body = None, opt_rawResponse = None,
      opt_includeHeaders = None, opt_excludeResponse = None, opt_queryParams = None\<rparr>"

definition all_pages :: "(string \<times> jsval) list" where
  "all_pages = [(''fetchAllPages'', JBool True)]"

definition skip1_url :: url where
  "skip1_url = \<lparr>pathname = ''/v1.0/me/messages'', searchParams = [(''$skip'', ''1'')]\<rparr>"

definition second_call :: exchange where
  "second_call =
     (''/me/messages'', plain_get\<lparr>opt_queryParams := Some [(''$skip'', ''1'')]\<rparr>,
      Inr (text_response (show_json page2)))"

definition third_call :: exchange where
  "third_call =
     (''/me/messages'', plain_get\<lparr>opt_queryParams := Some [(''$skip'', ''2'')]\<rparr>,
      Inr (text_response (show_json page3)))"

definition failed_call :: exchange where
  "failed_call =
     (''/me/messages'', plain_get\<lparr>opt_queryParams := Some [(''$skip'', ''2'')]\<rparr>,
      Inr (text_response ''Service Unavailable''))"

definition first_call :: exchange where
  "first_call = (''/me/messages'', plain_get, Inr (text_response (show_json page1)))"

definition beta_first_call :: exchange where
  "beta_first_call = (''/me/messages'', plain_get, Inr (text_response (show_json beta_page)))"

definition beta_second_call :: exchange where
  "beta_second_call =
     (''/beta/me/messages'', plain_get\<lparr>opt_queryParams := Some [(''$skip'', ''1'')]\<rparr>,
      Inr (text_response (show_json page3)))"

definition mixed_case_top :: "(string \<times> jsval) list" where
  "mixed_case_top = [(''Top'', JNum 10)]"

definition marked_mixed_case_top :: "(string \<times> jsval) list" where
  "marked_mixed_case_top = [(''$Top'', JNum 10)]"

section \<open>Terms for the statements about pagination and the workflow\<close>

text \<open>
  The cursor that the page of a call carries: the \<open>@odata.nextLink\<close> of its JSON body,
  and \<open>undefined\<close> when the call threw or returned no text or no JSON.
\<close>

definition page_cursor :: "builtins \<Rightarrow> exchange \<Rightarrow> jsval" where
  "page_cursor B x =
     (case snd (snd x) of
        Inl e \<Rightarrow> JUndefined
      | Inr response \<Rightarrow>
          if has_text response then
            (case JSON_parse B (first_text response) of
               Inl e \<Rightarrow> JUndefined
             | Inr body \<Rightarrow> opt_prop body ''@odata.nextLink'')
          else JUndefined)"

text \<open>
  The item array of the page that a follow-up call returned: the \<open>value\<close> of its JSON
  body when that is an array, and nothing otherwise.
\<close>

definition page_items :: "builtins \<Rightarrow> exchange \<Rightarrow> jsval list" where
  "page_items B x =
     (case snd (snd x) of
        Inl e \<Rightarrow> []
      | Inr nextResponse \<Rightarrow>
          if has_text nextResponse then
            (case JSON_parse B (first_text nextResponse) of
               Inl e \<Rightarrow> []
             | Inr nextJsonResponse \<Rightarrow>
                 (case opt_prop nextJsonResponse ''value'' of JArr ys \<Rightarrow> ys | _ \<Rightarrow> []))
          else [])"

text \<open>
  What lines 270 to 274 make of the first page's object \<open>kvs\<close> and the accumulated
  \<open>items\<close>: \<open>value\<close> replaced by the items, the count set to their number when the
  count read back is truthy, the cursor removed.
\<close>

definition merged_body :: "(string \<times> jsval) list \<Rightarrow> jsval list \<Rightarrow> jsval" where
  "merged_body kvs items =
     JObj (AList.delete ''@odata.nextLink''
             (if truthy (opt_prop (JObj kvs) ''@odata.count'')
              then AList.update ''@odata.count'' (JNum (of_nat (length items)))
                     (AList.update ''value'' (JArr items) kvs)
              else AList.update ''value'' (JArr items) kvs))"

text \<open>
  The line that lists one meeting, with its subject and its start time, and the meetings
  of a day that are listed: those whose \<open>isOnlineMeeting\<close> is truthy.
\<close>

definition listed_line :: "builtins \<Rightarrow> jsval \<Rightarrow> string" where
  "listed_line B e =
     ''- '' @ ToString B (opt_prop e ''subject'') @ '' (''
     @ ToString B (opt_prop (opt_prop e ''start'') ''dateTime'') @ '')''"

definition listed_meetings :: "jsval list \<Rightarrow> jsval list" where
  "listed_meetings events = filter (\<lambda>e. truthy (opt_prop e ''isOnlineMeeting'')) events"

definition no_match_text :: "builtins \<Rightarrow> GetTranscriptParams \<Rightarrow> jsval list \<Rightarrow> string" where
  "no_match_text B params events =
     ''No online meeting found matching '' @ dquote @ gp_subjectContains params @ dquote @ ''.''
     @ newline @ newline @ ''Available online meetings on '' @ gp_date params @ '':'' @ newline
     @ (if listed_meetings events = [] then ''(none)''
        else str_join newline (map (listed_line B) (listed_meetings events)))"

section \<open>The result envelope of the generic executor\<close>

text \<open>
  Claim C9. Every content block of a result returned by \<open>executeGraphTool\<close> is a text
  block, on the success path (where the response's blocks are mapped to text blocks)
  and on the error path (a single text block): the image, audio and resource shapes of
  \<open>ContentItem\<close> are never produced.
\<close>

theorem executeGraphTool_text_blocks:
  "\<forall>c \<in> set (ctr_content (run_result (executeGraphTool B tool config client st params))).
     \<exists>t. c = TextContent t"
  by (auto simp: executeGraphTool_def tool_error_result_def to_result_def
           split: sum.splits prod.splits)

theorem executeGraphTool_text_blocks_witness:
  "TextContent (show_json page1)
     \<in> set (ctr_content (run_result (executeGraphTool node list_mail_messages None mailbox () [])))
   \<and> (\<exists>t. TextContent (show_json page1) = TextContent t)"
proof -
  have mem: "TextContent (show_json page1)
     \<in> set (ctr_content (run_result (executeGraphTool node list_mail_messages None mailbox () [])))"
    by code_simp
  from executeGraphTool_text_blocks [rule_format, OF mem] mem show ?thesis by blast
qed

section \<open>The dispatcher of discovery mode\<close>

text \<open>
  Claim C6. When \<open>execute-tool\<close> is called with a name that the tools registry does not
  hold, the result is a failure envelope (\<open>isError\<close> true) whose single text block is
  the JSON of an object naming the missing tool ("Tool not found: name") and pointing at
  \<open>search-tools\<close>; the client is not called.
\<close>

theorem execute_tool_not_found:
  "map_of toolsRegistry tool_name = None \<Longrightarrow>
   execute_tool B toolsRegistry client st tool_name parameters =
     \<lparr>run_result =
        \<lparr>ctr_content =
           [TextContent
              (JSON_stringify B
                 (JObj [(''error'', JStr (''Tool not found: '' @ tool_name)),
                        (''tip'', JStr ''Use search-tools to find available tools.'')]))],
         ctr_meta = None, ctr_isError = Some True\<rparr>,
      run_exchanges = [], run_log = [], run_state = st\<rparr>"
  by (simp add: execute_tool_def tool_not_found_def)

theorem execute_tool_not_found_witness:
  "map_of mail_registry ''send-mail'' = None
   \<and> execute_tool node mail_registry mailbox () ''send-mail'' None =
       \<lparr>run_result =
          \<lparr>ctr_content =
             [TextContent
                (''{'' @ dquote @ ''error'' @ dquote @ '':'' @ dquote @ ''Tool not found: send-mail''
                 @ dquote @ '','' @ dquote @ ''tip'' @ dquote @ '':'' @ dquote
                 @ ''Use search-tools to find available tools.'' @ dquote @ ''}'')],
           ctr_meta = None, ctr_isError = Some True\<rparr>,
        run_exchanges = [], run_log = [], run_state = ()\<rparr>"
proof -
  have absent: "map_of mail_registry ''send-mail'' = None"
    by code_simp
  have shown: "JSON_stringify node
                 (JObj [(''error'', JStr (''Tool not found: '' @ ''send-mail'')),
                        (''tip'', JStr ''Use search-tools to find available tools.'')])
      = ''{'' @ dquote @ ''error'' @ dquote @ '':'' @ dquote @ ''Tool not found: send-mail''
                 @ dquote @ '','' @ dquote @ ''tip'' @ dquote @ '':'' @ dquote
                 @ ''Use search-tools to find available tools.'' @ dquote @ ''}''"
    by code_simp
  from execute_tool_not_found [OF absent, of node mailbox "()" None] absent shown
  show ?thesis by simp
qed

section \<open>The parameter binder\<close>

lemma marked_not_control: "CHR ''$'' # n \<notin> set controlParams"
  by (simp add: controlParams_def)

lemma normalized_marked: "normalizedParamName (CHR ''$'' # n) = n"
  by (simp add: normalizedParamName_def)

lemma normalized_unmarked: "\<not> str_startsWith n ''$'' \<Longrightarrow> normalizedParamName n = n"
  by (simp add: normalizedParamName_def)

lemma param_get_single: "param_get [(n, v)] k = (if n = k then v else JUndefined)"
  by (simp add: param_get_def)

lemma control_keys:
  "n \<notin> set controlParams \<Longrightarrow>
   n \<noteq> ''timezone'' \<and> n \<noteq> ''includeHeaders'' \<and> n \<noteq> ''excludeResponse'' \<and> n \<noteq> ''fetchAllPages''"
  by (auto simp: controlParams_def)

text \<open>
  Where a reserved name is spelled as the catalog declares it, the marker makes no
  difference: if the first definition named \<open>n\<close> binds to the query and none is named
  \<open>$n\<close>, then binding a value under \<open>n\<close> or under \<open>$n\<close> writes it under the
  lower-cased name with the \<open>$\<close> put in front, and an invocation with the one
  parameter builds the same request in both forms.
\<close>

lemma declared_name_same_key:
  assumes reserved: "toLowerCase B n \<in> set odataParams"
    and unmarked: "\<not> str_startsWith n ''$''"
    and no_control: "n \<notin> set controlParams"
    and declared: "find (\<lambda>p. pd_name p = n) defs = Some d" "pd_type d = Query"
    and unmarked_only: "\<forall>p \<in> set defs. pd_name p \<noteq> ''$'' @ n"
  shows "bind_param B defs s (n, v) =
           Inr (s\<lparr>bs_queryParams :=
                    record_set (''$'' @ toLowerCase B n) (ToString B v) (bs_queryParams s)\<rparr>)
       \<and> bind_param B defs s (''$'' @ n, v) = bind_param B defs s (n, v)
       \<and> (tool_parameters tool = Some defs \<longrightarrow>
            build_request B tool config [(''$'' @ n, v)] = build_request B tool config [(n, v)])"
proof -
  have key: "fixedParamName B n = ''$'' @ toLowerCase B n"
    using reserved unmarked by (simp add: fixedParamName_def isOdataParam_def normalized_unmarked)
  have key': "fixedParamName B (''$'' @ n) = ''$'' @ toLowerCase B n"
    using reserved by (simp add: fixedParamName_def isOdataParam_def normalized_marked)
  have "find (\<lambda>p. pd_name p = n \<or>
                (isOdataParam B n \<and> pd_name p = normalizedParamName n)) defs
        = find (\<lambda>p. pd_name p = n) defs"
    using unmarked by (intro find_cong) (auto simp: normalized_unmarked)
  with declared(1) have plain: "find_paramDef B defs n = Some d"
    by (simp add: find_paramDef_def)
  have "find (\<lambda>p. pd_name p = ''$'' @ n \<or>
                (isOdataParam B (''$'' @ n) \<and> pd_name p = normalizedParamName (''$'' @ n))) defs
        = find (\<lambda>p. pd_name p = n) defs"
    using unmarked_only reserved
    by (intro find_cong) (auto simp: isOdataParam_def normalized_marked)
  with declared(1) have marked: "find_paramDef B defs (''$'' @ n) = Some d"
    by (simp add: find_paramDef_def)
  have b: "bind_param B defs t (n, v) =
           Inr (t\<lparr>bs_queryParams :=
                    record_set (''$'' @ toLowerCase B n) (ToString B v) (bs_queryParams t)\<rparr>)"
    for t
    using no_control plain declared(2) key by (simp add: bind_param_def)
  have b': "bind_param B defs t (''$'' @ n, v) =
           Inr (t\<lparr>bs_queryParams :=
                    record_set (''$'' @ toLowerCase B n) (ToString B v) (bs_queryParams t)\<rparr>)"
    for t
    using marked_not_control [of n] marked declared(2) key' by (simp add: bind_param_def)
  have r: "build_request B tool config [(''$'' @ n, v)] = build_request B tool config [(n, v)]"
    if "tool_parameters tool = Some defs"
    using that control_keys [OF no_control] b b'
    by (simp add: build_request_def timezone_headers_def param_get_single Let_def split: sum.splits)
  from b b' r show ?thesis by simp
qed

text \<open>
  Claim C3 does not hold on the code for a reserved name whose case differs from the
  declared one. The names \<open>Top\<close> and \<open>$Top\<close> are recognised (their lower-cased form
  is in the reserved set) and the key computed for both is \<open>$top\<close>; but the definition
  is looked up under the name as given, none is named \<open>Top\<close>, and the parameter is
  dropped. With the Query definition \<open>top\<close>, the request for \<open>top\<close> or \<open>$top\<close> is
  \<open>/me/messages?%24top=10\<close>, while the request for \<open>Top\<close> or \<open>$Top\<close> is
  \<open>/me/messages\<close>, with no \<open>$top\<close> key; so it is through \<open>execute-tool\<close>.
\<close>

theorem mixed_case_name_dropped:
  "toLowerCase node ''Top'' \<in> set odataParams
   \<and> fixedParamName node ''Top'' = ''$top''
   \<and> fixedParamName node ''$Top'' = ''$top''
   \<and> find_paramDef node [top_parameter, filter_parameter] ''Top'' = None
   \<and> find_paramDef node [top_parameter, filter_parameter] ''$Top'' = None
   \<and> build_request node list_mail_messages None [(''top'', JNum 10)] =
       Inr (''/me/messages?%24top=10'', plain_get)
   \<and> build_request node list_mail_messages None [(''$top'', JNum 10)] =
       Inr (''/me/messages?%24top=10'', plain_get)
   \<and> build_request node list_mail_messages None mixed_case_top =
       Inr (''/me/messages'', plain_get)
   \<and> build_request node list_mail_messages None marked_mixed_case_top =
       Inr (''/me/messages'', plain_get)
   \<and> run_exchanges
         (execute_tool node mail_registry mailbox () ''list-mail-messages'' (Some mixed_case_top))
       = [first_call]"
proof -
  have lookup:
    "find_paramDef node [top_parameter, filter_parameter] ''Top'' = None"
    "find_paramDef node [top_parameter, filter_parameter] ''$Top'' = None"
    by (simp_all add: find_paramDef_def top_parameter_def filter_parameter_def
                      normalizedParamName_def)
  have requests:
    "toLowerCase node ''Top'' \<in> set odataParams
     \<and> fixedParamName node ''Top'' = ''$top''
     \<and> fixedParamName node ''$Top'' = ''$top''
     \<and> build_request node list_mail_messages None [(''top'', JNum 10)] =
         Inr (''/me/messages?%24top=10'', plain_get)
     \<and> build_request node list_mail_messages None [(''$top'', JNum 10)] =
         Inr (''/me/messages?%24top=10'', plain_get)
     \<and> build_request node list_mail_messages None mixed_case_top =
         Inr (''/me/messages'', plain_get)
     \<and> build_request node list_mail_messages None marked_mixed_case_top =
         Inr (''/me/messages'', plain_get)
     \<and> run_exchanges
           (execute_tool node mail_registry mailbox () ''list-mail-messages'' (Some mixed_case_top))
         = [first_call]"
    by code_simp
  from lookup requests show ?thesis by simp
qed



section \<open>Control keys\<close>

text \<open>
  Claim C10. The control keys \<open>fetchAllPages\<close>, \<open>includeHeaders\<close> and
  \<open>excludeResponse\<close> are skipped by the binder whatever their value, so they never
  reach the path, the query, the headers or the body. The options carry
  \<open>includeHeaders\<close> and \<open>excludeResponse\<close> exactly when the parameter is the
  boolean \<open>true\<close>; and unless \<open>fetchAllPages\<close> is the boolean \<open>true\<close>, the invocation
  makes at most one call and returns the first response as it came.
\<close>

theorem control_keys_need_true:
  "(k \<in> {''fetchAllPages'', ''includeHeaders'', ''excludeResponse''} \<longrightarrow>
      bind_param B defs s (k, v) = Inr s)
   \<and> (build_request B tool config params = Inr (path, options) \<longrightarrow>
        opt_includeHeaders options =
          (if param_get params ''includeHeaders'' = JBool True then Some True else None)
        \<and> opt_excludeResponse options =
          (if param_get params ''excludeResponse'' = JBool True then Some True else None))
   \<and> (param_get params ''fetchAllPages'' \<noteq> JBool True \<longrightarrow>
        length (run_exchanges (executeGraphTool B tool config client st params)) \<le> 1
        \<and> (build_request B tool config params = Inr (path, options) \<and>
            client st path options = (Inr response, st1) \<longrightarrow>
            executeGraphTool B tool config client st params =
              \<lparr>run_result = to_result response, run_exchanges = [(path, options, Inr response)],
               run_log = [], run_state = st1\<rparr>))"
proof (intro conjI impI)
  assume "k \<in> {''fetchAllPages'', ''includeHeaders'', ''excludeResponse''}"
  then show "bind_param B defs s (k, v) = Inr s"
    by (auto simp: bind_param_def controlParams_def)
next
  assume "build_request B tool config params = Inr (path, options)"
  then show "opt_includeHeaders options =
          (if param_get params ''includeHeaders'' = JBool True then Some True else None)"
    by (auto simp: build_request_def Let_def split: sum.splits)
next
  assume "build_request B tool config params = Inr (path, options)"
  then show "opt_excludeResponse options =
          (if param_get params ''excludeResponse'' = JBool True then Some True else None)"
    by (auto simp: build_request_def Let_def split: sum.splits)
next
  assume "param_get params ''fetchAllPages'' \<noteq> JBool True"
  then show "length (run_exchanges (executeGraphTool B tool config client st params)) \<le> 1"
    by (auto simp: executeGraphTool_def split: sum.splits prod.splits)
next
  assume "param_get params ''fetchAllPages'' \<noteq> JBool True"
    and "build_request B tool config params = Inr (path, options) \<and>
         client st path options = (Inr response, st1)"
  then show "executeGraphTool B tool config client st params =
              \<lparr>run_result = to_result response, run_exchanges = [(path, options, Inr response)],
               run_log = [], run_state = st1\<rparr>"
    by (simp add: executeGraphTool_def)
qed

theorem control_keys_need_true_witness:
  "''fetchAllPages'' \<in> {''fetchAllPages'', ''includeHeaders'', ''excludeResponse''}
   \<and> bind_param node [top_parameter, filter_parameter] empty_state (''fetchAllPages'', JStr ''true'')
       = Inr empty_state
   \<and> build_request node list_mail_messages None quoted_flags = Inr (''/me/messages'', plain_get)
   \<and> param_get quoted_flags ''includeHeaders'' \<noteq> JBool True
   \<and> param_get quoted_flags ''excludeResponse'' \<noteq> JBool True
   \<and> param_get quoted_flags ''fetchAllPages'' \<noteq> JBool True
   \<and> mailbox () ''/me/messages'' plain_get = (Inr (text_response (show_json page1)), ())
   \<and> opt_includeHeaders plain_get = None \<and> opt_excludeResponse plain_get = None
   \<and> executeGraphTool node list_mail_messages None mailbox () quoted_flags =
       \<lparr>run_result = to_result (text_response (show_json page1)),
        run_exchanges = [(''/me/messages'', plain_get, Inr (text_response (show_json page1)))],
        run_log = [], run_state = ()\<rparr>"
proof -
  have h1: "''fetchAllPages'' \<in> {''fetchAllPages'', ''includeHeaders'', ''excludeResponse''}"
    by simp
  have h2: "build_request node list_mail_messages None quoted_flags = Inr (''/me/messages'', plain_get)"
    by code_simp
  have h3: "param_get quoted_flags ''fetchAllPages'' \<noteq> JBool True"
           "param_get quoted_flags ''includeHeaders'' \<noteq> JBool True"
           "param_get quoted_flags ''excludeResponse'' \<noteq> JBool True"
    by (simp_all add: param_get_def quoted_flags_def)
  have h4: "mailbox () ''/me/messages'' plain_get = (Inr (text_response (show_json page1)), ())"
    by (simp add: mailbox_def plain_get_def)
  from control_keys_need_true [of "''fetchAllPages''" node "[top_parameter, filter_parameter]"
         empty_state "JStr ''true''" list_mail_messages None quoted_flags "''/me/messages''"
         plain_get mailbox "()" "text_response (show_json page1)" "()"]
       h1 h2 h3 h4
  show ?thesis by simp
qed

section \<open>The pagination loop\<close>

lemma step_made:
  "pagination_step B client options st allItems nextLink = (made, st', r) \<Longrightarrow> length made \<le> 1"
  by (auto simp: pagination_step_def Let_def split: sum.splits prod.splits if_splits)

lemma step_continue_made:
  "pagination_step B client options st allItems nextLink = (made, st', Inr (Some c)) \<Longrightarrow>
   length made = 1"
  by (auto simp: pagination_step_def Let_def split: sum.splits prod.splits if_splits)

lemma loop_stops:
  "\<not> truthy nextLink \<or> 100 \<le> pageCount \<Longrightarrow>
   pagination_loop B client options st allItems nextLink pageCount =
     ([], st, Inr (allItems, pageCount))"
  by (subst pagination_loop.simps) auto

lemma loop_throws:
  "truthy nextLink \<Longrightarrow> pageCount < 100 \<Longrightarrow>
   pagination_step B client options st allItems nextLink = (made, st', Inl e) \<Longrightarrow>
   pagination_loop B client options st allItems nextLink pageCount = (made, st', Inl e)"
  by (subst pagination_loop.simps) simp

lemma loop_breaks:
  "truthy nextLink \<Longrightarrow> pageCount < 100 \<Longrightarrow>
   pagination_step B client options st allItems nextLink = (made, st', Inr None) \<Longrightarrow>
   pagination_loop B client options st allItems nextLink pageCount =
     (made, st', Inr (allItems, pageCount))"
  by (subst pagination_loop.simps) simp

lemma loop_continues:
  "truthy nextLink \<Longrightarrow> pageCount < 100 \<Longrightarrow>
   pagination_step B client options st allItems nextLink =
     (made, st', Inr (Some (allItems', nextLink'))) \<Longrightarrow>
   pagination_loop B client options st allItems nextLink pageCount =
     (made @ fst (pagination_loop B client options st' allItems' nextLink' (pageCount + 1)),
      snd (pagination_loop B client options st' allItems' nextLink' (pageCount + 1)))"
  by (subst pagination_loop.simps) (simp split: prod.splits)

text \<open>The induction that every property of the loop uses: the loop stops at once, or its
  first iteration throws, breaks, or merges a page and the loop goes on.\<close>

lemma loop_cases [consumes 0, case_names stop throw break continue]:
  assumes "\<And>B client options st allItems nextLink pageCount.
             \<not> truthy nextLink \<or> 100 \<le> (pageCount::nat) \<Longrightarrow>
             P B client options st allItems nextLink pageCount"
    and "\<And>B client options st allItems nextLink pageCount made st' e.
             truthy nextLink \<Longrightarrow> pageCount < 100 \<Longrightarrow>
             pagination_step B client options st allItems nextLink = (made, st', Inl e) \<Longrightarrow>
             P B client options st allItems nextLink pageCount"
    and "\<And>B client options st allItems nextLink pageCount made st'.
             truthy nextLink \<Longrightarrow> pageCount < 100 \<Longrightarrow>
             pagination_step B client options st allItems nextLink = (made, st', Inr None) \<Longrightarrow>
             P B client options st allItems nextLink pageCount"
    and "\<And>B client options st allItems nextLink pageCount made st' allItems' nextLink'.
             truthy nextLink \<Longrightarrow> pageCount < 100 \<Longrightarrow>
             pagination_step B client options st allItems nextLink =
               (made, st', Inr (Some (allItems', nextLink'))) \<Longrightarrow>
             P B client options st' allItems' nextLink' (pageCount + 1) \<Longrightarrow>
             P B client options st allItems nextLink pageCount"
  shows "P B (client :: 's graphRequest) options st allItems nextLink (pageCount::nat)"
proof (induction B client options st allItems nextLink pageCount rule: pagination_loop.induct)
  case (1 B client options st allItems nextLink pageCount)
  show ?case
  proof (cases "truthy nextLink \<and> pageCount < 100")
    case False
    then show ?thesis using assms(1) by auto
  next
    case True
    obtain made st' r where step:
      "pagination_step B client options st allItems nextLink = (made, st', r)"
      by (cases "pagination_step B client options st allItems nextLink") auto
    show ?thesis
    proof (cases r)
      case (Inl e)
      with True step assms(2) show ?thesis by blast
    next
      case (Inr c)
      show ?thesis
      proof (cases c)
        case None
        with True step Inr assms(3) show ?thesis by blast
      next
        case (Some p)
        obtain allItems' nextLink' where p: "p = (allItems', nextLink')" by (cases p)
        have "P B client options st' allItems' nextLink' (pageCount + 1)"
          using "1.IH" [OF True step [symmetric] refl] Inr Some p by simp
        with True step Inr Some p assms(4) show ?thesis by blast
      qed
    qed
  qed
qed

lemma loop_made_bound:
  "length (fst (pagination_loop B client options st allItems nextLink pageCount)) \<le> 100 - pageCount"
proof (induction B client options st allItems nextLink pageCount rule: loop_cases)
  case (stop B client options st allItems nextLink pageCount)
  then show ?case by (simp add: loop_stops)
next
  case (throw B client options st allItems nextLink pageCount made st' e)
  then show ?case using step_made [OF throw(3)] by (simp add: loop_throws)
next
  case (break B client options st allItems nextLink pageCount made st')
  then show ?case using step_made [OF break(3)] by (simp add: loop_breaks)
next
  case (continue B client options st allItems nextLink pageCount made st' allItems' nextLink')
  then show ?case using step_made [OF continue(3)] by (simp add: loop_continues)
qed

lemma loop_exit_count:
  "snd (snd (pagination_loop B client options st allItems nextLink pageCount)) = Inr (items, pc) \<Longrightarrow>
   pageCount \<le> pc \<and> pc \<le> max pageCount 100
   \<and> pc - pageCount \<le> length (fst (pagination_loop B client options st allItems nextLink pageCount))"
proof (induction B client options st allItems nextLink pageCount rule: loop_cases)
  case (stop B client options st allItems nextLink pageCount)
  then show ?case by (auto simp: loop_stops)
next
  case (throw B client options st allItems nextLink pageCount made st' e)
  then show ?case by (simp add: loop_throws)
next
  case (break B client options st allItems nextLink pageCount made st')
  then show ?case by (auto simp: loop_breaks)
next
  case (continue B client options st allItems nextLink pageCount made st' allItems' nextLink')
  then show ?case using step_continue_made [OF continue(3)]
    by (auto simp: loop_continues)
qed


lemma try_made:
  assumes "fetch_pages_try B client options st t = (made, st', logged, r)"
  shows "length made \<le> 99 \<and> (WarnPageLimit \<in> set logged \<longrightarrow> length made = 99)"
proof (cases "\<exists>first v link. JSON_parse B t = Inr first \<and> get_prop first ''value'' = Inr v
                \<and> get_prop first ''@odata.nextLink'' = Inr link")
  case False
  with assms show ?thesis
    by (auto simp: fetch_pages_try_def split: sum.splits)
next
  case True
  then obtain first v link where first: "JSON_parse B t = Inr first"
      "get_prop first ''value'' = Inr v" "get_prop first ''@odata.nextLink'' = Inr link"
    by blast
  define run where "run = pagination_loop B client options st (js_or v (JArr [])) link 1"
  have bound: "length (fst run) \<le> 99"
    using loop_made_bound [of B client options st "js_or v (JArr [])" link 1]
    by (simp add: run_def)
  have made: "made = fst run"
    using assms first by (auto simp: fetch_pages_try_def run_def split: sum.splits prod.splits)
  have "length made = 99" if "WarnPageLimit \<in> set logged"
  proof -
    from that assms first obtain items pc where exit: "snd (snd run) = Inr (items, pc)" "100 \<le> pc"
      by (auto simp: fetch_pages_try_def run_def split: sum.splits prod.splits if_splits)
    from loop_exit_count [OF exit(1) [unfolded run_def]] exit(2) have "99 \<le> length (fst run)"
      by (auto simp: run_def)
    with bound made show ?thesis by simp
  qed
  with bound made show ?thesis by simp
qed

text \<open>
  Claim C2. The pagination loop is a total function: it always returns. An invocation
  makes at most 99 calls after the first one, hence never more than 100 follow-up
  requests, whatever cursors the client keeps returning. The loop makes no call once
  the cursor is falsy or the page counter has reached 100. The page-limit warning is
  logged exactly when the loop leaves with the counter at 100, which takes 99 follow-up
  calls.
\<close>

theorem pagination_bounded:
  "length (tl (run_exchanges (executeGraphTool B tool config client st params))) \<le> 99
   \<and> (\<not> truthy nextLink \<or> 100 \<le> pageCount \<longrightarrow>
        pagination_loop B client options st' allItems nextLink pageCount =
          ([], st', Inr (allItems, pageCount)))
   \<and> (WarnPageLimit \<in> set (run_log (executeGraphTool B tool config client st params)) \<longrightarrow>
        length (tl (run_exchanges (executeGraphTool B tool config client st params))) = 99)
   \<and> (JSON_parse B firstText = Inr first \<and> get_prop first ''value'' = Inr v
        \<and> get_prop first ''@odata.nextLink'' = Inr link
        \<and> snd (snd (pagination_loop B client options st' (js_or v (JArr [])) link 1))
            = Inr (items, pc) \<longrightarrow>
        pc \<le> 100
        \<and> fst (snd (snd (fetch_pages_try B client options st' firstText))) =
            (if pc = 100 then [WarnPageLimit] else []))"
proof (intro conjI impI)
  show "length (tl (run_exchanges (executeGraphTool B tool config client st params))) \<le> 99"
    by (auto simp: executeGraphTool_def fetch_all_pages_def
             split: sum.splits prod.splits dest: try_made)
next
  assume "\<not> truthy nextLink \<or> 100 \<le> pageCount"
  then show "pagination_loop B client options st' allItems nextLink pageCount =
          ([], st', Inr (allItems, pageCount))"
    by (rule loop_stops)
next
  assume "WarnPageLimit \<in> set (run_log (executeGraphTool B tool config client st params))"
  then show "length (tl (run_exchanges (executeGraphTool B tool config client st params))) = 99"
    by (auto simp: executeGraphTool_def fetch_all_pages_def
             split: sum.splits prod.splits if_splits dest: try_made)
next
  assume h: "JSON_parse B firstText = Inr first \<and> get_prop first ''value'' = Inr v
        \<and> get_prop first ''@odata.nextLink'' = Inr link
        \<and> snd (snd (pagination_loop B client options st' (js_or v (JArr [])) link 1))
            = Inr (items, pc)"
  then have exit: "snd (snd (pagination_loop B client options st' (js_or v (JArr [])) link 1))
            = Inr (items, pc)" by simp
  from loop_exit_count [OF exit] show "pc \<le> 100" by simp
  then show "fst (snd (snd (fetch_pages_try B client options st' firstText))) =
            (if pc = 100 then [WarnPageLimit] else [])"
    using h by (auto simp: fetch_pages_try_def split: prod.splits sum.splits)
qed


theorem pagination_bounded_witness:
  "length (tl (run_exchanges (executeGraphTool node list_mail_messages None endless_mailbox 0 all_pages))) = 99
   \<and> run_log (executeGraphTool node list_mail_messages None endless_mailbox 0 all_pages) = [WarnPageLimit]
   \<and> pagination_loop node endless_mailbox plain_get 1 (JArr [JStr ''m1'']) JUndefined 1
       = ([], 1, Inr (JArr [JStr ''m1''], 1))
   \<and> JSON_parse node (show_json page1) = Inr page1
   \<and> get_prop page1 ''value'' = Inr (JArr [JStr ''m1''])
   \<and> get_prop page1 ''@odata.nextLink'' = Inr (JStr (skip_link ''1''))
   \<and> snd (snd (pagination_loop node endless_mailbox plain_get 1 (js_or (JArr [JStr ''m1'']) (JArr []))
                  (JStr (skip_link ''1'')) 1))
       = Inr (JArr (replicate 100 (JStr ''m1'')), 100)
   \<and> fst (snd (snd (fetch_pages_try node endless_mailbox plain_get 1 (show_json page1))))
       = [WarnPageLimit]"
proof -
  have l: "run_log (executeGraphTool node list_mail_messages None endless_mailbox 0 all_pages) = [WarnPageLimit]"
    by code_simp
  then have w: "WarnPageLimit \<in> set (run_log (executeGraphTool node list_mail_messages None endless_mailbox 0 all_pages))"
    by simp
  have c: "\<not> truthy JUndefined \<or> (100::nat) \<le> 1" by simp
  have p1: "JSON_parse node (show_json page1) = Inr page1" by code_simp
  have p2: "get_prop page1 ''value'' = Inr (JArr [JStr ''m1''])" by code_simp
  have p3: "get_prop page1 ''@odata.nextLink'' = Inr (JStr (skip_link ''1''))" by code_simp
  have p4: "snd (snd (pagination_loop node endless_mailbox plain_get 1
                        (js_or (JArr [JStr ''m1'']) (JArr []))
                        (JStr (skip_link ''1'')) 1))
       = Inr (JArr (replicate 100 (JStr ''m1'')), 100)" by code_simp
  from pagination_bounded [of node list_mail_messages None endless_mailbox 0 all_pages JUndefined 1
         plain_get 1 "JArr [JStr ''m1'']" "show_json page1" page1 "JArr [JStr ''m1'']"
         "JStr (skip_link ''1'')" "JArr (replicate 100 (JStr ''m1''))" 100]
       w l c p1 p2 p3 p4
  show ?thesis by simp
qed

lemma startsWith_append: "str_startsWith (p @ r) p"
proof (induction p)
  case Nil
  show ?case by simp
next
  case (Cons c p)
  then show ?case by simp
qed

lemma replace_prefix: "p \<noteq> [] \<Longrightarrow> str_replace (p @ r) p rep = rep @ r"
  using startsWith_append [of p r] by (cases p) simp_all

lemma step_requests:
  assumes "x \<in> set (fst (pagination_step B client options st allItems nextLink))"
  shows "\<exists>u. new_URL B (ToString B nextLink) = Inr u
           \<and> fst x = str_replace (pathname u) ''/v1.0'' []
           \<and> fst (snd x) = options\<lparr>opt_queryParams := Some (fromEntries (searchParams u))\<rparr>"
  using assms
  by (auto simp: pagination_step_def Let_def split: sum.splits prod.splits if_splits)

text \<open>
  The record filled from a cursor's query parameters, on an example: index keys come
  first in ascending order, a repeated key keeps its place and takes the later value,
  \<open>__proto__\<close> stores nothing, and \<open>01\<close> and \<open>4294967295\<close> are no array indices.
\<close>

lemma fromEntries_example:
  "fromEntries
     [(''b'', ''1''), (''2'', ''x''), (''10'', ''y''), (''1'', ''z''), (''__proto__'', ''p''),
      (''b'', ''2''), (''01'', ''q''), (''4294967295'', ''r''), (''0'', ''s''), (''2'', ''t'')]
   = [(''0'', ''s''), (''1'', ''z''), (''2'', ''t''), (''10'', ''y''), (''b'', ''2''),
      (''01'', ''q''), (''4294967295'', ''r'')]"
  by code_simp

lemma replace_absent: "\<not> str_includes s p \<Longrightarrow> str_replace s p rep = s"
  by (induction s) auto

lemma step_continue_cursor:
  assumes "pagination_step B client options st allItems nextLink =
             (made, st', Inr (Some (allItems', nextLink')))"
  shows "\<exists>x. made = [x] \<and> page_cursor B x = nextLink'"
proof -
  obtain u where u: "new_URL B (ToString B nextLink) = Inr u"
    using assms by (auto simp: pagination_step_def split: sum.splits)
  define nextPath where "nextPath = str_replace (pathname u) ''/v1.0'' []"
  define nextOptions where
    "nextOptions = options\<lparr>opt_queryParams := Some (fromEntries (searchParams u))\<rparr>"
  note unfold = pagination_step_def Let_def nextPath_def nextOptions_def
  obtain nextResponse where r: "client st nextPath nextOptions = (Inr nextResponse, st')"
    using assms u by (auto simp: unfold split: sum.splits prod.splits if_splits)
  have made: "made = [(nextPath, nextOptions, Inr nextResponse)]"
    using assms u r by (auto simp: unfold split: sum.splits prod.splits if_splits)
  have texted: "has_text nextResponse"
    using assms u r by (auto simp: unfold split: sum.splits prod.splits if_splits)
  obtain body where body: "JSON_parse B (first_text nextResponse) = Inr body"
    using assms u r texted by (auto simp: unfold split: sum.splits prod.splits if_splits)
  have "get_prop body ''@odata.nextLink'' = Inr nextLink'"
    using assms u r texted body by (auto simp: unfold split: sum.splits prod.splits if_splits)
  then have "opt_prop body ''@odata.nextLink'' = nextLink'"
    by (cases body) (auto simp: opt_prop_def)
  with made texted body show ?thesis by (simp add: page_cursor_def)
qed

text \<open>The cursor that the call number \<open>i\<close> of the loop follows: the one the loop started
  with, or the one carried by the page of the call before it.\<close>

lemma loop_follows_cursor:
  "i < length (fst (pagination_loop B client options st allItems nextLink pageCount)) \<Longrightarrow>
   \<exists>u. truthy (case i of 0 \<Rightarrow> nextLink
                 | Suc j \<Rightarrow> page_cursor B
                     (fst (pagination_loop B client options st allItems nextLink pageCount) ! j))
     \<and> new_URL B (ToString B
           (case i of 0 \<Rightarrow> nextLink
            | Suc j \<Rightarrow> page_cursor B
                (fst (pagination_loop B client options st allItems nextLink pageCount) ! j)))
         = Inr u
     \<and> fst (fst (pagination_loop B client options st allItems nextLink pageCount) ! i)
         = str_replace (pathname u) ''/v1.0'' []
     \<and> fst (snd (fst (pagination_loop B client options st allItems nextLink pageCount) ! i))
         = options\<lparr>opt_queryParams := Some (fromEntries (searchParams u))\<rparr>"
proof (induction B client options st allItems nextLink pageCount arbitrary: i rule: loop_cases)
  case (stop B client options st allItems nextLink pageCount)
  then show ?case by (simp add: loop_stops)
next
  case (throw B client options st allItems nextLink pageCount made st' e)
  have trace: "fst (pagination_loop B client options st allItems nextLink pageCount) = made"
    using throw(1-3) by (simp add: loop_throws)
  with throw(4) step_made [OF throw(3)] have i: "i = 0" by simp
  with throw(4) trace have "made ! 0 \<in> set made" by simp
  note i = i this
  from step_requests [of "made ! 0" B client options st allItems nextLink] i throw(3)
  show ?case using throw(1) trace i by auto
next
  case (break B client options st allItems nextLink pageCount made st')
  have trace: "fst (pagination_loop B client options st allItems nextLink pageCount) = made"
    using break(1-3) by (simp add: loop_breaks)
  with break(4) step_made [OF break(3)] have i: "i = 0" by simp
  with break(4) trace have "made ! 0 \<in> set made" by simp
  note i = i this
  from step_requests [of "made ! 0" B client options st allItems nextLink] i break(3)
  show ?case using break(1) trace i by auto
next
  case (continue B client options st allItems nextLink pageCount made st' allItems' nextLink')
  define later where
    "later = fst (pagination_loop B client options st' allItems' nextLink' (pageCount + 1))"
  from step_continue_cursor [OF continue(3)] obtain x where
    x: "made = [x]" "page_cursor B x = nextLink'" by blast
  have trace: "fst (pagination_loop B client options st allItems nextLink pageCount) = x # later"
    using continue(1-3) x by (simp add: loop_continues later_def)
  show ?case
  proof (cases i)
    case 0
    have "x \<in> set (fst (pagination_step B client options st allItems nextLink))"
      using continue(3) x by simp
    from step_requests [OF this] show ?thesis using continue(1) trace 0 by auto
  next
    case (Suc j)
    with continue(5) trace have j: "j < length later" by simp
    from continue(4) [OF j [unfolded later_def]]
    obtain u where u:
      "truthy (case j of 0 \<Rightarrow> nextLink' | Suc k \<Rightarrow> page_cursor B (later ! k))"
      "new_URL B (ToString B (case j of 0 \<Rightarrow> nextLink' | Suc k \<Rightarrow> page_cursor B (later ! k)))
         = Inr u"
      "fst (later ! j) = str_replace (pathname u) ''/v1.0'' []"
      "fst (snd (later ! j)) = options\<lparr>opt_queryParams := Some (fromEntries (searchParams u))\<rparr>"
      unfolding later_def by blast
    have same: "page_cursor B ((x # later) ! j)
                  = (case j of 0 \<Rightarrow> nextLink' | Suc k \<Rightarrow> page_cursor B (later ! k))"
      using x by (cases j) simp_all
    from u same show ?thesis unfolding trace Suc by auto
  qed
qed


lemma build_request_no_query:
  "build_request B tool config params = Inr (path, options) \<Longrightarrow> opt_queryParams options = None"
  by (auto simp: build_request_def Let_def split: sum.splits)

lemma run_trace:
  assumes "Suc i < length (run_exchanges (executeGraphTool B tool config client st params))"
  shows "\<exists>path options response st1 allItems link.
           run_exchanges (executeGraphTool B tool config client st params) =
             (path, options, Inr response) # fst (pagination_loop B client options st1 allItems link 1)
           \<and> page_cursor B (path, options, Inr response) = link
           \<and> opt_queryParams options = None"
proof -
  obtain path options where request: "build_request B tool config params = Inr (path, options)"
    using assms by (cases "build_request B tool config params") (auto simp: executeGraphTool_def)
  obtain response st1 where called: "client st path options = (Inr response, st1)"
    using assms request
    by (cases "client st path options") (auto simp: executeGraphTool_def split: sum.splits)
  have paged: "param_get params ''fetchAllPages'' = JBool True \<and> has_text response"
    using assms request called by (auto simp: executeGraphTool_def split: if_splits)
  obtain made st2 logged r where tried:
    "fetch_pages_try B client options st1 (first_text response) = (made, st2, logged, r)"
    by (cases "fetch_pages_try B client options st1 (first_text response)") auto
  have trace: "run_exchanges (executeGraphTool B tool config client st params) =
                 (path, options, Inr response) # made"
    using request called paged tried
    by (cases r) (simp_all add: executeGraphTool_def fetch_all_pages_def)
  with assms have more: "made \<noteq> []" by auto
  obtain body where body: "JSON_parse B (first_text response) = Inr body"
    using tried more by (auto simp: fetch_pages_try_def split: sum.splits)
  obtain v where v: "get_prop body ''value'' = Inr v"
    using tried more body by (auto simp: fetch_pages_try_def split: sum.splits)
  obtain link where link: "get_prop body ''@odata.nextLink'' = Inr link"
    using tried more body v by (auto simp: fetch_pages_try_def split: sum.splits)
  have made: "made = fst (pagination_loop B client options st1 (js_or v (JArr [])) link 1)"
    using tried body v link by (auto simp: fetch_pages_try_def split: sum.splits prod.splits)
  have "opt_prop body ''@odata.nextLink'' = link"
    using link by (cases body) (auto simp: opt_prop_def)
  then have cursor: "page_cursor B (path, options, Inr response) = link"
    using paged body by (simp add: page_cursor_def)
  from trace made cursor build_request_no_query [OF request] show ?thesis by blast
qed

text \<open>
  Claim C8, as amended. Every call after the first is built from the cursor carried by
  the page of the call before it. That cursor is truthy and a URL; if the URL's path is
  \<open>/v1.0\<close> followed by \<open>rest\<close>, the call goes to \<open>rest\<close>, and if the path does not
  contain \<open>/v1.0\<close> (a path under \<open>/beta\<close>, say), the call goes to the path as it is.
  The options are those of the first call, which carry no query parameters of their own
  (the original ones are part of the first path), with \<open>queryParams\<close> set to the record
  of the cursor URL's query parameters.
\<close>

theorem follow_up_from_cursor:
  assumes trace: "xs = run_exchanges (executeGraphTool B tool config client st params)"
    and follow_up: "Suc i < length xs"
  shows "\<exists>u. truthy (page_cursor B (xs ! i))
           \<and> new_URL B (ToString B (page_cursor B (xs ! i))) = Inr u
           \<and> (\<forall>rest. pathname u = ''/v1.0'' @ rest \<longrightarrow> fst (xs ! Suc i) = rest)
           \<and> (\<not> str_includes (pathname u) ''/v1.0'' \<longrightarrow> fst (xs ! Suc i) = pathname u)
           \<and> fst (snd (xs ! Suc i)) =
               (fst (snd (xs ! 0)))\<lparr>opt_queryParams := Some (fromEntries (searchParams u))\<rparr>
           \<and> opt_queryParams (fst (snd (xs ! 0))) = None"
proof -
  from run_trace [OF follow_up [unfolded trace]] obtain path options response st1 allItems link
    where run: "xs = (path, options, Inr response)
                  # fst (pagination_loop B client options st1 allItems link 1)"
      and first_cursor: "page_cursor B (path, options, Inr response) = link"
      and no_query: "opt_queryParams options = None"
    unfolding trace by blast
  define made where "made = fst (pagination_loop B client options st1 allItems link 1)"
  from follow_up run have i: "i < length made" by (simp add: made_def)
  have same: "(case i of 0 \<Rightarrow> link | Suc j \<Rightarrow> page_cursor B (made ! j)) = page_cursor B (xs ! i)"
    using run first_cursor by (cases i) (simp_all add: made_def)
  from loop_follows_cursor [OF i [unfolded made_def]] obtain u where u:
    "truthy (page_cursor B (xs ! i))"
    "new_URL B (ToString B (page_cursor B (xs ! i))) = Inr u"
    "fst (made ! i) = str_replace (pathname u) ''/v1.0'' []"
    "fst (snd (made ! i)) = options\<lparr>opt_queryParams := Some (fromEntries (searchParams u))\<rparr>"
    unfolding made_def [symmetric] same by blast
  have next_call: "xs ! Suc i = made ! i" using run by (simp add: made_def)
  have stripped: "fst (xs ! Suc i) = rest" if "pathname u = ''/v1.0'' @ rest" for rest
    using that u(3) next_call replace_prefix [of "''/v1.0''" rest "[]"] by simp
  have kept: "fst (xs ! Suc i) = pathname u" if "\<not> str_includes (pathname u) ''/v1.0''"
    using that u(3) next_call by (simp add: replace_absent)
  have opts: "fst (snd (xs ! Suc i)) =
               (fst (snd (xs ! 0)))\<lparr>opt_queryParams := Some (fromEntries (searchParams u))\<rparr>"
    using u(4) next_call run by simp
  have "opt_queryParams (fst (snd (xs ! 0))) = None" using run no_query by simp
  with u(1,2) stripped kept opts show ?thesis by blast
qed


theorem follow_up_from_cursor_witness:
  "Suc 0 < length (run_exchanges (executeGraphTool node list_mail_messages None mailbox () all_pages))
   \<and> run_exchanges (executeGraphTool node list_mail_messages None mailbox () all_pages) ! 0
       = first_call
   \<and> page_cursor node first_call = JStr (skip_link ''1'')
   \<and> new_URL node (ToString node (JStr (skip_link ''1''))) = Inr skip1_url
   \<and> pathname skip1_url = ''/v1.0'' @ ''/me/messages''
   \<and> fst (run_exchanges (executeGraphTool node list_mail_messages None mailbox () all_pages) ! Suc 0)
       = ''/me/messages''
   \<and> fst (snd (run_exchanges (executeGraphTool node list_mail_messages None mailbox () all_pages)
                ! Suc 0))
       = plain_get\<lparr>opt_queryParams := Some [(''$skip'', ''1'')]\<rparr>
   \<and> Suc 0 < length (run_exchanges
                      (executeGraphTool node list_mail_messages None beta_mailbox () all_pages))
   \<and> run_exchanges (executeGraphTool node list_mail_messages None beta_mailbox () all_pages) ! 0
       = beta_first_call
   \<and> page_cursor node beta_first_call = JStr beta_link
   \<and> new_URL node (ToString node (JStr beta_link)) = Inr beta_url
   \<and> \<not> str_includes (pathname beta_url) ''/v1.0''
   \<and> fst (run_exchanges (executeGraphTool node list_mail_messages None beta_mailbox () all_pages)
           ! Suc 0)
       = pathname beta_url"
proof -
  define R where "R = run_exchanges (executeGraphTool node list_mail_messages None mailbox () all_pages)"
  define R' where
    "R' = run_exchanges (executeGraphTool node list_mail_messages None beta_mailbox () all_pages)"
  have h: "Suc 0 < length R" unfolding R_def by code_simp
  have f: "R ! 0 = first_call" unfolding R_def by code_simp
  have c: "page_cursor node first_call = JStr (skip_link ''1'')" by code_simp
  have n: "new_URL node (ToString node (JStr (skip_link ''1''))) = Inr skip1_url" by code_simp
  have p: "pathname skip1_url = ''/v1.0'' @ ''/me/messages''" by (simp add: skip1_url_def)
  have q: "fromEntries (searchParams skip1_url) = [(''$skip'', ''1'')]" by code_simp
  have o: "fst (snd first_call) = plain_get" by (simp add: first_call_def)
  from follow_up_from_cursor [OF R_def h] obtain u where u:
    "new_URL node (ToString node (page_cursor node (R ! 0))) = Inr u"
    "\<forall>rest. pathname u = ''/v1.0'' @ rest \<longrightarrow> fst (R ! Suc 0) = rest"
    "fst (snd (R ! Suc 0)) =
       (fst (snd (R ! 0)))\<lparr>opt_queryParams := Some (fromEntries (searchParams u))\<rparr>"
    by blast
  from u(1) f c n have "u = skip1_url" by simp
  with u(2,3) p q f o have first:
    "fst (R ! Suc 0) = ''/me/messages''"
    "fst (snd (R ! Suc 0)) = plain_get\<lparr>opt_queryParams := Some [(''$skip'', ''1'')]\<rparr>"
    by simp_all
  have h': "Suc 0 < length R'" unfolding R'_def by code_simp
  have f': "R' ! 0 = beta_first_call" unfolding R'_def by code_simp
  have c': "page_cursor node beta_first_call = JStr beta_link" by code_simp
  have n': "new_URL node (ToString node (JStr beta_link)) = Inr beta_url" by code_simp
  have p': "\<not> str_includes (pathname beta_url) ''/v1.0''" by code_simp
  from follow_up_from_cursor [OF R'_def h'] obtain w where w:
    "new_URL node (ToString node (page_cursor node (R' ! 0))) = Inr w"
    "\<not> str_includes (pathname w) ''/v1.0'' \<longrightarrow> fst (R' ! Suc 0) = pathname w"
    by blast
  from w(1) f' c' n' have "w = beta_url" by simp
  with w(2) p' have second: "fst (R' ! Suc 0) = pathname beta_url" by simp
  from h f c n p first h' f' c' n' p' second show ?thesis
    unfolding R_def R'_def by simp
qed

text \<open>
  Claim C8 as stated fails on a cursor of another version of the external API: for the
  cursor \<open>https://graph.microsoft.com/beta/me/messages?$skip=1\<close> the follow-up call
  goes to \<open>/beta/me/messages\<close>, with the version prefix still in front.
\<close>

theorem beta_prefix_kept:
  "run_exchanges (executeGraphTool node list_mail_messages None beta_mailbox () all_pages)
     = [beta_first_call, beta_second_call]
   \<and> page_cursor node beta_first_call = JStr beta_link
   \<and> new_URL node (ToString node (JStr beta_link)) = Inr beta_url
   \<and> pathname beta_url = ''/beta'' @ ''/me/messages''
   \<and> fst beta_second_call = ''/beta/me/messages''"
  by code_simp

section \<open>What a completed aggregation returns\<close>

lemma step_items:
  assumes "pagination_step B client options st (JArr xs) nextLink =
             (made, st', Inr (Some (allItems', nextLink')))"
  shows "allItems' = JArr (xs @ concat (map (page_items B) made))"
proof -
  obtain u where u: "new_URL B (ToString B nextLink) = Inr u"
    using assms by (auto simp: pagination_step_def split: sum.splits)
  obtain nextPath nextOptions where np:
    "nextPath = str_replace (pathname u) ''/v1.0'' []"
    "nextOptions = options\<lparr>opt_queryParams := Some (fromEntries (searchParams u))\<rparr>"
    by simp
  obtain nextResponse where r: "client st nextPath nextOptions = (Inr nextResponse, st')"
    using assms u np by (auto simp: pagination_step_def Let_def split: sum.splits prod.splits if_splits)
  have made: "made = [(nextPath, nextOptions, Inr nextResponse)]"
    using assms u np r by (auto simp: pagination_step_def Let_def split: sum.splits prod.splits if_splits)
  have ht: "has_text nextResponse"
    using assms u np r by (auto simp: pagination_step_def Let_def split: sum.splits prod.splits if_splits)
  obtain j where j: "JSON_parse B (first_text nextResponse) = Inr j"
    using assms u np r ht by (auto simp: pagination_step_def Let_def split: sum.splits prod.splits if_splits)
  obtain v where v: "get_prop j ''value'' = Inr v"
    using assms u np r ht j by (auto simp: pagination_step_def Let_def split: sum.splits prod.splits if_splits)
  have ov: "opt_prop j ''value'' = v"
    using v by (cases j) (auto simp: opt_prop_def)
  have items: "(if truthy v \<and> isArray v then js_concat B (JArr xs) v else Inr (JArr xs)) = Inr allItems'"
    using assms u np r ht j v by (auto simp: pagination_step_def Let_def split: sum.splits prod.splits if_splits)
  have "page_items B (nextPath, nextOptions, Inr nextResponse) = (case v of JArr ys \<Rightarrow> ys | _ \<Rightarrow> [])"
    using ht j ov by (simp add: page_items_def)
  with items made show ?thesis
    by (cases v) (auto split: if_splits)
qed

lemma step_break_items:
  assumes "pagination_step B client options st allItems nextLink = (made, st', Inr None)"
  shows "concat (map (page_items B) made) = []"
  using assms
  by (auto simp: pagination_step_def Let_def page_items_def split: sum.splits prod.splits if_splits)

lemma loop_items:
  "pagination_loop B client options st allItems nextLink pageCount = (made, st', Inr (items, pc)) \<Longrightarrow>
   allItems = JArr xs \<Longrightarrow>
   items = JArr (xs @ concat (map (page_items B) made))"
proof (induction B client options st allItems nextLink pageCount arbitrary: made xs
         rule: loop_cases)
  case (stop B client options st allItems nextLink pageCount)
  then show ?case by (auto simp: loop_stops)
next
  case (throw B client options st allItems nextLink pageCount made' st'' e)
  then show ?case by (simp add: loop_throws)
next
  case (break B client options st allItems nextLink pageCount made' st'')
  from break(4) break(1-3) have "made = made'" "items = allItems"
    by (simp_all add: loop_breaks)
  with step_break_items [OF break(3)] break(5) show ?case by simp
next
  case (continue B client options st allItems nextLink pageCount made' st'' allItems' nextLink')
  define later where "later = fst (pagination_loop B client options st'' allItems' nextLink' (pageCount + 1))"
  from continue(5) continue(1-3) have made: "made = made' @ later"
    and rest: "pagination_loop B client options st'' allItems' nextLink' (pageCount + 1)
                 = (later, st', Inr (items, pc))"
    by (auto simp: loop_continues later_def prod_eq_iff)
  from step_items [OF continue(3) [unfolded continue(6)]]
  have a: "allItems' = JArr (xs @ concat (map (page_items B) made'))" .
  from continue(4) [OF rest a] made show ?case by simp
qed

lemma combine_pages_object:
  "combine_pages (JObj kvs) (JArr items) = Inr (merged_body kvs items)"
  by (simp add: combine_pages_def merged_body_def opt_prop_def update_conv')

text \<open>
  What the code computes when the aggregation completes. Let the first page be a JSON
  object whose \<open>value\<close> is an array (or falsy, which counts as the empty array), and let
  the loop run to its end without a throw. Then the accumulated items are the first
  page's items followed by the item arrays of all follow-up pages in order, and the
  returned body is the JSON of \<open>merged_body\<close> on the first page's object and that
  accumulation.
\<close>

lemma aggregation_result:
  assumes request: "build_request B tool config params = Inr (path, options)"
    and first_call: "client st path options = (Inr response, st1)"
    and flag: "param_get params ''fetchAllPages'' = JBool True"
    and texted: "has_text response"
    and first_page: "JSON_parse B (first_text response) = Inr (JObj kvs)"
    and first_items: "js_or (opt_prop (JObj kvs) ''value'') (JArr []) = JArr xs"
    and completed:
      "pagination_loop B client options st1 (JArr xs) (opt_prop (JObj kvs) ''@odata.nextLink'') 1
         = (made, st2, Inr (allItems, pageCount))"
  shows "allItems = JArr (xs @ concat (map (page_items B) made))
       \<and> run_result (executeGraphTool B tool config client st params) =
           to_result
             (set_first_text response
                (JSON_stringify B (merged_body kvs (xs @ concat (map (page_items B) made)))))
       \<and> run_exchanges (executeGraphTool B tool config client st params) =
           (path, options, Inr response) # made"
proof -
  from loop_items [OF completed refl]
  have items: "allItems = JArr (xs @ concat (map (page_items B) made))" .
  have tried: "fetch_pages_try B client options st1 (first_text response) =
               (made, st2, if pageCount \<ge> 100 then [WarnPageLimit] else [],
                Inr (JSON_stringify B (merged_body kvs (xs @ concat (map (page_items B) made)))))"
    using first_page first_items completed items
    by (simp add: fetch_pages_try_def opt_prop_def combine_pages_object)
  from request first_call flag texted tried items show ?thesis
    by (simp add: executeGraphTool_def fetch_all_pages_def)
qed

lemma aggregation_result_example:
  "build_request node list_mail_messages None all_pages = Inr (''/me/messages'', plain_get)
   \<and> mailbox () ''/me/messages'' plain_get = (Inr (text_response (show_json page1)), ())
   \<and> param_get all_pages ''fetchAllPages'' = JBool True
   \<and> has_text (text_response (show_json page1))
   \<and> JSON_parse node (first_text (text_response (show_json page1))) = Inr (JObj page1_fields)
   \<and> js_or (opt_prop (JObj page1_fields) ''value'') (JArr []) = JArr [JStr ''m1'']
   \<and> pagination_loop node mailbox plain_get () (JArr [JStr ''m1''])
         (opt_prop (JObj page1_fields) ''@odata.nextLink'') 1
       = ([second_call, third_call], (), Inr (JArr [JStr ''m1'', JStr ''m2'', JStr ''m3''], 3))
   \<and> run_result (executeGraphTool node list_mail_messages None mailbox () all_pages) =
       \<lparr>ctr_content =
          [TextContent
             (''{'' @ quoted ''@odata.count'' @ '':3,'' @ quoted ''value'' @ '':['' @ quoted ''m1''
              @ '','' @ quoted ''m2'' @ '','' @ quoted ''m3'' @ '']}'')],
        ctr_meta = None, ctr_isError = None\<rparr>
   \<and> run_exchanges (executeGraphTool node list_mail_messages None mailbox () all_pages) =
       [first_call, second_call, third_call]"
proof -
  have h1: "build_request node list_mail_messages None all_pages = Inr (''/me/messages'', plain_get)"
    by code_simp
  have h2: "mailbox () ''/me/messages'' plain_get = (Inr (text_response (show_json page1)), ())"
    by (simp add: mailbox_def plain_get_def)
  have h3: "param_get all_pages ''fetchAllPages'' = JBool True"
    by (simp add: param_get_def all_pages_def)
  have h4: "has_text (text_response (show_json page1))" by code_simp
  have h5: "JSON_parse node (first_text (text_response (show_json page1))) = Inr (JObj page1_fields)"
    by code_simp
  have h6: "js_or (opt_prop (JObj page1_fields) ''value'') (JArr []) = JArr [JStr ''m1'']"
    by code_simp
  have h7: "pagination_loop node mailbox plain_get () (JArr [JStr ''m1''])
         (opt_prop (JObj page1_fields) ''@odata.nextLink'') 1
       = ([second_call, third_call], (), Inr (JArr [JStr ''m1'', JStr ''m2'', JStr ''m3''], 3))"
    by code_simp
  have e1: "concat (map (page_items node) [second_call, third_call]) = [JStr ''m2'', JStr ''m3'']"
    by code_simp
  have e2: "to_result (set_first_text (text_response (show_json page1))
              (JSON_stringify node (merged_body page1_fields [JStr ''m1'', JStr ''m2'', JStr ''m3''])))
            = \<lparr>ctr_content =
          [TextContent
             (''{'' @ quoted ''@odata.count'' @ '':3,'' @ quoted ''value'' @ '':['' @ quoted ''m1''
              @ '','' @ quoted ''m2'' @ '','' @ quoted ''m3'' @ '']}'')],
        ctr_meta = None, ctr_isError = None\<rparr>"
    by code_simp
  from aggregation_result [OF h1 h2 h3 h4 h5 h6 h7] h1 h2 h3 h4 h5 h6 h7 e1 e2
  show ?thesis by (simp add: first_call_def)
qed

text \<open>
  Claim C5 does not hold on the code for a first page whose count is zero beside items.
  The aggregation of a contacts folder that answers
  \<open>{"@odata.count":0,"value":["c1"]}\<close> completes, and the returned body still carries
  the count 0 beside its one item: the update of the count is guarded by the count's own
  truthiness, which a zero fails. The claim promises the count 1.
\<close>

theorem zero_count_left_alone:
  "executeGraphTool node list_contacts None mailbox () all_pages =
     \<lparr>run_result =
        \<lparr>ctr_content =
           [TextContent
              (''{'' @ quoted ''@odata.count'' @ '':0,'' @ quoted ''value'' @ '':['' @ quoted ''c1''
               @ '']}'')],
         ctr_meta = None, ctr_isError = None\<rparr>,
      run_exchanges = [(''/me/contacts'', plain_get, Inr (text_response (show_json contacts_page)))],
      run_log = [], run_state = ()\<rparr>
   \<and> show_json contacts_page =
       ''{'' @ quoted ''@odata.count'' @ '':0,'' @ quoted ''value'' @ '':['' @ quoted ''c1'' @ '']}''
   \<and> JSON_parse node (show_json contacts_page) =
       Inr (JObj [(''@odata.count'', JNum 0), (''value'', JArr [JStr ''c1''])])
   \<and> show_json contacts_page \<noteq>
       show_json (JObj [(''@odata.count'', JNum 1), (''value'', JArr [JStr ''c1''])])"
  by code_simp


section \<open>An error in the middle of the pagination\<close>

text \<open>
  Claim C1, as amended. In a fetch-all-pages invocation whose first page parses, if an
  error is thrown in the loop (a follow-up body that does not parse, a call that throws,
  a cursor that is no URL), the invocation still returns normally, but what it returns
  is the first response as it came: the follow-up pages fetched before the error are
  not part of the payload, and the error is only logged.
\<close>

theorem pagination_error_keeps_first_page:
  assumes request: "build_request B tool config params = Inr (path, options)"
    and first_call: "client st path options = (Inr response, st1)"
    and flag: "param_get params ''fetchAllPages'' = JBool True"
    and texted: "has_text response"
    and first_page: "JSON_parse B (first_text response) = Inr first"
    and first_items: "get_prop first ''value'' = Inr v"
    and first_cursor: "get_prop first ''@odata.nextLink'' = Inr link"
    and thrown: "pagination_loop B client options st1 (js_or v (JArr [])) link 1 = (made, st2, Inl e)"
  shows "executeGraphTool B tool config client st params =
           \<lparr>run_result = to_result response,
            run_exchanges = (path, options, Inr response) # made,
            run_log = [ErrorDuringPagination e],
            run_state = st2\<rparr>"
  using assms by (simp add: executeGraphTool_def fetch_all_pages_def fetch_pages_try_def)

theorem pagination_error_keeps_first_page_witness:
  "build_request node list_mail_messages None all_pages = Inr (''/me/messages'', plain_get)
   \<and> broken_mailbox () ''/me/messages'' plain_get = (Inr (text_response (show_json page1)), ())
   \<and> param_get all_pages ''fetchAllPages'' = JBool True
   \<and> has_text (text_response (show_json page1))
   \<and> JSON_parse node (first_text (text_response (show_json page1))) = Inr page1
   \<and> get_prop page1 ''value'' = Inr (JArr [JStr ''m1''])
   \<and> get_prop page1 ''@odata.nextLink'' = Inr (JStr (skip_link ''1''))
   \<and> pagination_loop node broken_mailbox plain_get () (js_or (JArr [JStr ''m1'']) (JArr []))
         (JStr (skip_link ''1'')) 1
       = ([second_call, failed_call], (), Inl (SyntaxError ''Unexpected token''))
   \<and> executeGraphTool node list_mail_messages None broken_mailbox () all_pages =
       \<lparr>run_result = to_result (text_response (show_json page1)),
        run_exchanges = [first_call, second_call, failed_call],
        run_log = [ErrorDuringPagination (SyntaxError ''Unexpected token'')],
        run_state = ()\<rparr>"
proof -
  have h1: "build_request node list_mail_messages None all_pages = Inr (''/me/messages'', plain_get)"
    by code_simp
  have h2: "broken_mailbox () ''/me/messages'' plain_get = (Inr (text_response (show_json page1)), ())"
    by (simp add: broken_mailbox_def plain_get_def)
  have h3: "param_get all_pages ''fetchAllPages'' = JBool True"
    by (simp add: param_get_def all_pages_def)
  have h4: "has_text (text_response (show_json page1))" by code_simp
  have h5: "JSON_parse node (first_text (text_response (show_json page1))) = Inr page1"
    by code_simp
  have h6: "get_prop page1 ''value'' = Inr (JArr [JStr ''m1''])" by code_simp
  have h7: "get_prop page1 ''@odata.nextLink'' = Inr (JStr (skip_link ''1''))" by code_simp
  have h8: "pagination_loop node broken_mailbox plain_get () (js_or (JArr [JStr ''m1'']) (JArr []))
         (JStr (skip_link ''1'')) 1
       = ([second_call, failed_call], (), Inl (SyntaxError ''Unexpected token''))"
    by code_simp
  from pagination_error_keeps_first_page [OF h1 h2 h3 h4 h5 h6 h7 h8] h1 h2 h3 h4 h5 h6 h7 h8
  show ?thesis by (simp add: first_call_def)
qed

text \<open>
  Claim C1 as stated fails on a mailbox whose third page is not JSON: the second page
  is fetched and parses, with the item \<open>m2\<close>, yet the returned payload is the first
  page's own text, cursor included, and holds no \<open>m2\<close>.
\<close>

theorem pagination_error_discards_pages:
  "run_result (executeGraphTool node list_mail_messages None broken_mailbox () all_pages) =
     \<lparr>ctr_content = [TextContent
           (''{'' @ quoted ''@odata.count'' @ '':3,'' @ quoted ''value'' @ '':['' @ quoted ''m1''
            @ ''],'' @ quoted ''@odata.nextLink'' @ '':'' @ quoted (skip_link ''1'') @ ''}'')],
      ctr_meta = None, ctr_isError = None\<rparr>
   \<and> run_exchanges (executeGraphTool node list_mail_messages None broken_mailbox () all_pages) =
       [first_call, second_call, failed_call]
   \<and> run_log (executeGraphTool node list_mail_messages None broken_mailbox () all_pages) =
       [ErrorDuringPagination (SyntaxError ''Unexpected token'')]
   \<and> page_items node second_call = [JStr ''m2'']
   \<and> \<not> str_includes
         (''{'' @ quoted ''@odata.count'' @ '':3,'' @ quoted ''value'' @ '':['' @ quoted ''m1''
          @ ''],'' @ quoted ''@odata.nextLink'' @ '':'' @ quoted (skip_link ''1'') @ ''}'')
         (quoted ''m2'')"
  by code_simp

section \<open>The composite workflow when no meeting matches\<close>

lemma startsWith_iff: "str_startsWith s p \<longleftrightarrow> (\<exists>c. s = p @ c)"
proof (induction s p rule: str_startsWith.induct)
  case (1 s)
  show ?case by simp
next
  case (2 p ps)
  show ?case by simp
next
  case (3 c cs p ps)
  then show ?case by auto
qed

lemma includes_iff: "str_includes s p \<longleftrightarrow> (\<exists>a c. s = a @ p @ c)"
proof (induction s)
  case Nil
  show ?case by auto
next
  case (Cons x xs)
  show ?case
  proof
    assume "str_includes (x # xs) p"
    then consider "str_startsWith (x # xs) p" | "str_includes xs p" by auto
    then show "\<exists>a c. x # xs = a @ p @ c"
    proof cases
      case 1
      then obtain c where "x # xs = p @ c" by (auto simp: startsWith_iff)
      then have "x # xs = [] @ p @ c" by simp
      then show ?thesis by blast
    next
      case 2
      with Cons obtain a c where "xs = a @ p @ c" by blast
      then have "x # xs = (x # a) @ p @ c" by simp
      then show ?thesis by blast
    qed
  next
    assume "\<exists>a c. x # xs = a @ p @ c"
    then obtain a c where s: "x # xs = a @ p @ c" by blast
    show "str_includes (x # xs) p"
    proof (cases a)
      case Nil
      with s have "str_startsWith (x # xs) p" by (auto simp: startsWith_iff)
      then show ?thesis by simp
    next
      case (Cons y ys)
      with s have "xs = ys @ p @ c" by simp
      with Cons.IH have "str_includes xs p" by blast
      then show ?thesis by simp
    qed
  qed
qed

lemma join_holds: "l \<in> set ls \<Longrightarrow> \<exists>a c. str_join sep ls = a @ l @ c"
proof (induction sep ls rule: str_join.induct)
  case (1 sep)
  then show ?case by simp
next
  case (2 sep x)
  then have "str_join sep [x] = [] @ l @ []" by simp
  then show ?case by blast
next
  case (3 sep x y ys)
  show ?case
  proof (cases "l = x")
    case True
    then have "str_join sep (x # y # ys) = [] @ l @ (sep @ str_join sep (y # ys))" by simp
    then show ?thesis by blast
  next
    case False
    with 3 obtain a c where "str_join sep (y # ys) = a @ l @ c" by auto
    then have "str_join sep (x # y # ys) = (x @ sep @ a) @ l @ c" by simp
    then show ?thesis by blast
  qed
qed

lemma subject_matches_nullish: "nullish e \<Longrightarrow> \<exists>err. subject_matches B sc e = Inl err"
  by (cases e) (simp_all add: subject_matches_def)

lemma find_none_events:
  "find_event B sc events = Inr None \<Longrightarrow> \<forall>e \<in> set events. \<not> nullish e"
proof (induction events)
  case Nil
  show ?case by simp
next
  case (Cons e events)
  from Cons.prems have "\<not> nullish e"
    using subject_matches_nullish [of e B sc] by (auto split: sum.splits)
  moreover from Cons.prems have "find_event B sc events = Inr None"
    by (auto split: sum.splits if_splits)
  ultimately show ?case using Cons.IH by simp
qed

lemma get_prop_defined: "\<not> nullish v \<Longrightarrow> get_prop v k = Inr (opt_prop v k)"
  by (cases v) (simp_all add: opt_prop_def)

lemma online_meetings_listed:
  "\<forall>e \<in> set events. \<not> nullish e \<Longrightarrow> online_meetings events = Inr (listed_meetings events)"
  by (induction events) (simp_all add: listed_meetings_def get_prop_defined)

lemma meeting_lines_listed:
  "\<forall>e \<in> set events. \<not> nullish e \<Longrightarrow> meeting_lines B events = Inr (map (listed_line B) events)"
  by (induction events) (simp_all add: meeting_line_def listed_line_def get_prop_defined)

lemma join_lines_nonempty:
  "ls \<noteq> [] \<Longrightarrow> str_join sep (map (listed_line B) ls) \<noteq> []"
proof (cases ls)
  case Nil
  then show "ls \<noteq> [] \<Longrightarrow> ?thesis" by simp
next
  case (Cons e es)
  then show ?thesis by (cases es) (simp_all add: listed_line_def)
qed

lemma no_match_result_text:
  assumes "\<forall>e \<in> set events. \<not> nullish e"
  shows "no_match_result B params events = Inr (failure (no_match_text B params events))"
proof -
  have sub: "\<forall>e \<in> set (listed_meetings events). \<not> nullish e"
    using assms by (simp add: listed_meetings_def)
  show ?thesis
    using join_lines_nonempty [of "listed_meetings events" newline B]
    by (simp add: no_match_result_def no_match_text_def online_meetings_listed [OF assms]
                  meeting_lines_listed [OF sub] Let_def)
qed


lemma match_subject_no_match:
  assumes found: "get_prop calendarData ''value'' = Inr (JArr events)" "events \<noteq> []"
    and no_match: "find_event B (gp_subjectContains params) events = Inr None"
  shows "match_subject B makeRequest st' params calendarData =
          (Inr (failure (no_match_text B params events)), [], st')"
proof -
  have defined: "\<forall>e \<in> set events. \<not> nullish e"
    using no_match by (rule find_none_events)
  show ?thesis
    using found no_match
    by (simp add: match_subject_def js_or_def no_match_result_text [OF defined])
qed


lemma no_match_text_holds:
  assumes "e \<in> set (listed_meetings events)"
  shows "\<exists>a c. no_match_text B params events = a @ listed_line B e @ c"
proof -
  define header where
    "header = ''No online meeting found matching '' @ dquote @ gp_subjectContains params @ dquote
       @ ''.'' @ newline @ newline @ ''Available online meetings on '' @ gp_date params @ '':''
       @ newline"
  from assms have "listed_line B e \<in> set (map (listed_line B) (listed_meetings events))" by simp
  from join_holds [OF this, of newline] obtain a c where joined:
    "str_join newline (map (listed_line B) (listed_meetings events)) = a @ listed_line B e @ c"
    by blast
  from assms have "listed_meetings events \<noteq> []" by auto
  then have "no_match_text B params events =
               header @ str_join newline (map (listed_line B) (listed_meetings events))"
    by (simp add: no_match_text_def header_def)
  with joined have "no_match_text B params events = (header @ a) @ listed_line B e @ c"
    by simp
  then show ?thesis by blast
qed

text \<open>
  Claim C7. When the calendar query returns a non-empty array of events and the search
  finds no online meeting whose subject contains the search text, the workflow returns
  a failure envelope (\<open>isError\<close> true) after that one call. Its text names the search
  text and the date and then lists the online meetings of the day, one line each with the
  meeting's subject and start time; in particular the line of every online meeting of
  the day occurs in the text.
\<close>

theorem no_match_lists_online_meetings:
  assumes encoded: "encodeURIComponent B (startDateTime params) = Inr encStart"
                   "encodeURIComponent B (endDateTime params) = Inr encEnd"
    and queried: "makeRequest st (calendarPath encStart encEnd) (calendarOptions params)
                    = (Inr calendarData, st')"
    and found: "get_prop calendarData ''value'' = Inr (JArr events)" "events \<noteq> []"
    and no_match: "find_event B (gp_subjectContains params) events = Inr None"
  shows "getTranscriptByMeeting B makeRequest st params =
           \<lparr>wf_result =
              \<lparr>ctr_content = [TextContent (no_match_text B params events)], ctr_meta = None,
               ctr_isError = Some True\<rparr>,
            wf_calls = [(calendarPath encStart encEnd, calendarOptions params)],
            wf_state = st'\<rparr>
       \<and> (\<forall>e \<in> set events. truthy (opt_prop e ''isOnlineMeeting'') \<longrightarrow>
              str_includes (no_match_text B params events) (listed_line B e))"
proof
  from match_subject_no_match [OF found no_match, of makeRequest st'] encoded queried
  show "getTranscriptByMeeting B makeRequest st params =
           \<lparr>wf_result =
              \<lparr>ctr_content = [TextContent (no_match_text B params events)], ctr_meta = None,
               ctr_isError = Some True\<rparr>,
            wf_calls = [(calendarPath encStart encEnd, calendarOptions params)],
            wf_state = st'\<rparr>"
    by (simp add: getTranscriptByMeeting_def calendar_query_def failure_def)
next
  show "\<forall>e \<in> set events. truthy (opt_prop e ''isOnlineMeeting'') \<longrightarrow>
              str_includes (no_match_text B params events) (listed_line B e)"
  proof (intro ballI impI)
    fix e
    assume "e \<in> set events" "truthy (opt_prop e ''isOnlineMeeting'')"
    then have "e \<in> set (listed_meetings events)" by (simp add: listed_meetings_def)
    from no_match_text_holds [OF this]
    show "str_includes (no_match_text B params events) (listed_line B e)"
      by (simp add: includes_iff)
  qed
qed


theorem no_match_lists_online_meetings_witness:
  "encodeURIComponent node (startDateTime nonexistent_query) = Inr ''2026-01-16T00%3A00%3A00''
   \<and> encodeURIComponent node (endDateTime nonexistent_query) = Inr ''2026-01-16T23%3A59%3A59''
   \<and> calendar () (calendarPath ''2026-01-16T00%3A00%3A00'' ''2026-01-16T23%3A59%3A59'')
         (calendarOptions nonexistent_query)
       = (Inr (JObj [(''value'', JArr calendar_day)]), ())
   \<and> get_prop (JObj [(''value'', JArr calendar_day)]) ''value'' = Inr (JArr calendar_day)
   \<and> calendar_day \<noteq> []
   \<and> find_event node (gp_subjectContains nonexistent_query) calendar_day = Inr None
   \<and> getTranscriptByMeeting node calendar () nonexistent_query =
       \<lparr>wf_result =
          \<lparr>ctr_content =
             [TextContent
                (''No online meeting found matching '' @ dquote @ ''nonexistent'' @ dquote @ ''.''
                 @ newline @ newline @ ''Available online meetings on 2026-01-16:'' @ newline
                 @ ''- Q1 Planning Sync (2026-01-16T09:00:00.0000000)'' @ newline
                 @ ''- Design Review (2026-01-16T14:00:00.0000000)'')],
           ctr_meta = None, ctr_isError = Some True\<rparr>,
        wf_calls =
          [(''/me/calendarView?startDateTime=2026-01-16T00%3A00%3A00&endDateTime=2026-01-16T23%3A59%3A59'',
            JObj [(''headers'',
                   JObj [(''Prefer'', JStr (''outlook.timezone='' @ dquote @ ''UTC'' @ dquote))])])],
        wf_state = ()\<rparr>
   \<and> design_review \<in> set calendar_day
   \<and> truthy (opt_prop design_review ''isOnlineMeeting'')
   \<and> listed_line node design_review = ''- Design Review (2026-01-16T14:00:00.0000000)''
   \<and> str_includes (no_match_text node nonexistent_query calendar_day)
         (listed_line node design_review)"
proof -
  have h1: "encodeURIComponent node (startDateTime nonexistent_query) = Inr ''2026-01-16T00%3A00%3A00''"
    by code_simp
  have h2: "encodeURIComponent node (endDateTime nonexistent_query) = Inr ''2026-01-16T23%3A59%3A59''"
    by code_simp
  have h3: "calendar () (calendarPath ''2026-01-16T00%3A00%3A00'' ''2026-01-16T23%3A59%3A59'')
         (calendarOptions nonexistent_query)
       = (Inr (JObj [(''value'', JArr calendar_day)]), ())"
    by (simp add: calendar_def)
  have h4: "get_prop (JObj [(''value'', JArr calendar_day)]) ''value'' = Inr (JArr calendar_day)"
    by simp
  have h5: "calendar_day \<noteq> []" by (simp add: calendar_day_def)
  have h6: "find_event node (gp_subjectContains nonexistent_query) calendar_day = Inr None"
    by code_simp
  have m: "design_review \<in> set calendar_day" by (simp add: calendar_day_def)
  have o: "truthy (opt_prop design_review ''isOnlineMeeting'')" by code_simp
  have e1: "no_match_text node nonexistent_query calendar_day =
              ''No online meeting found matching '' @ dquote @ ''nonexistent'' @ dquote @ ''.''
                 @ newline @ newline @ ''Available online meetings on 2026-01-16:'' @ newline
                 @ ''- Q1 Planning Sync (2026-01-16T09:00:00.0000000)'' @ newline
                 @ ''- Design Review (2026-01-16T14:00:00.0000000)''"
    by code_simp
  have e2: "listed_line node design_review = ''- Design Review (2026-01-16T14:00:00.0000000)''"
    by code_simp
  have e3: "calendarPath ''2026-01-16T00%3A00%3A00'' ''2026-01-16T23%3A59%3A59'' =
    ''/me/calendarView?startDateTime=2026-01-16T00%3A00%3A00&endDateTime=2026-01-16T23%3A59%3A59''"
    by code_simp
  have e4: "calendarOptions nonexistent_query =
     JObj [(''headers'',
                   JObj [(''Prefer'', JStr (''outlook.timezone='' @ dquote @ ''UTC'' @ dquote))])]"
    by code_simp
  note t = no_match_lists_online_meetings
             [where makeRequest = calendar and st = "()", OF h1 h2 h3 h4 h5 h6]
  from t [THEN conjunct1] t [THEN conjunct2, rule_format, OF m o] h1 h2 h3 h4 h5 h6 m o e2
  show ?thesis unfolding e1 e3 e4 by simp
qed

end
